theory Spec2Isabelle
  imports Main
begin

section \<open>JavaScript strings, buffers and dates\<close>

text \<open>
  A JavaScript string is a sequence of UTF-16 code units and a \<open>Buffer\<close> a sequence of
  bytes. Both are lists of natural numbers here (code units below \<open>65536\<close>, bytes below
  \<open>256\<close>); \<open>js\<close> turns a literal of the theory into such a string.
\<close>

type_synonym jsstring = "nat list"
type_synonym buffer = "nat list"

definition js :: "string \<Rightarrow> jsstring" where
  "js s = map of_char s"

subsection \<open>\<open>buf.toString('hex')\<close> and \<open>Buffer.from(s, 'hex')\<close>\<close>

definition hex_digit :: "nat \<Rightarrow> nat" where
  "hex_digit d = (if d < 10 then 48 + d else 87 + d)"

fun toString_hex :: "buffer \<Rightarrow> jsstring" where
  "toString_hex [] = []"
| "toString_hex (b # bs) = hex_digit (b div 16) # hex_digit (b mod 16) # toString_hex bs"

definition hex_value :: "nat \<Rightarrow> nat option" where
  "hex_value c =
     (if 48 \<le> c \<and> c \<le> 57 then Some (c - 48)
      else if 97 \<le> c \<and> c \<le> 102 then Some (c - 87)
      else if 65 \<le> c \<and> c \<le> 70 then Some (c - 55)
      else None)"

text \<open>Decoding stops at the first pair that is not two hex digits; an odd last digit is
  dropped. The decoder reads a code unit as a byte: only its low eight bits count.\<close>

fun Buffer_from_hex :: "jsstring \<Rightarrow> buffer" where
  "Buffer_from_hex (a # b # r) =
     (case hex_value (a mod 256) of
        None \<Rightarrow> []
      | Some x \<Rightarrow> (case hex_value (b mod 256) of
                     None \<Rightarrow> []
                   | Some y \<Rightarrow> (16 * x + y) # Buffer_from_hex r))"
| "Buffer_from_hex r = []"

subsection \<open>\<open>Buffer.from(s)\<close> and \<open>buf.toString('utf8')\<close>\<close>

definition high_surrogate :: "nat \<Rightarrow> bool" where
  "high_surrogate c \<longleftrightarrow> 55296 \<le> c \<and> c < 56320"

definition low_surrogate :: "nat \<Rightarrow> bool" where
  "low_surrogate c \<longleftrightarrow> 56320 \<le> c \<and> c < 57344"

text \<open>The code points of a string: a surrogate pair is one code point, a lone surrogate
  is replaced by U+FFFD.\<close>

fun code_points :: "jsstring \<Rightarrow> nat list" where
  "code_points [] = []"
| "code_points [c] = [if high_surrogate c \<or> low_surrogate c then 65533 else c]"
| "code_points (c # d # r) =
     (if high_surrogate c \<and> low_surrogate d
      then (65536 + (c - 55296) * 1024 + (d - 56320)) # code_points r
      else (if high_surrogate c \<or> low_surrogate c then 65533 else c) # code_points (d # r))"

definition utf8_bytes :: "nat \<Rightarrow> buffer" where
  "utf8_bytes cp =
     (if cp < 128 then [cp]
      else if cp < 2048 then [192 + cp div 64, 128 + cp mod 64]
      else if cp < 65536 then [224 + cp div 4096, 128 + cp div 64 mod 64, 128 + cp mod 64]
      else [240 + cp div 262144, 128 + cp div 4096 mod 64, 128 + cp div 64 mod 64,
            128 + cp mod 64])"

definition Buffer_from :: "jsstring \<Rightarrow> buffer" where
  "Buffer_from s = concat (map utf8_bytes (code_points s))"

definition continuation :: "nat \<Rightarrow> bool" where
  "continuation b \<longleftrightarrow> 128 \<le> b \<and> b < 192"

text \<open>Every ill-formed sequence decodes to U+FFFD, one for each maximal ill-formed part.\<close>

fun utf8_decode :: "buffer \<Rightarrow> nat list" where
  "utf8_decode [] = []"
| "utf8_decode (b # r) =
     (if b < 128 then b # utf8_decode r
      else if 194 \<le> b \<and> b \<le> 223 then
        (case r of
           [] \<Rightarrow> [65533]
         | c # r1 \<Rightarrow>
             if continuation c then ((b - 192) * 64 + (c - 128)) # utf8_decode r1
             else 65533 # utf8_decode r)
      else if 224 \<le> b \<and> b \<le> 239 then
        (case r of
           [] \<Rightarrow> [65533]
         | c # r1 \<Rightarrow>
             if (if b = 224 then 160 else 128) \<le> c \<and> c \<le> (if b = 237 then 159 else 191) then
               (case r1 of
                  [] \<Rightarrow> [65533]
                | d # r2 \<Rightarrow>
                    if continuation d
                    then ((b - 224) * 4096 + (c - 128) * 64 + (d - 128)) # utf8_decode r2
                    else 65533 # utf8_decode r1)
             else 65533 # utf8_decode r)
      else if 240 \<le> b \<and> b \<le> 244 then
        (case r of
           [] \<Rightarrow> [65533]
         | c # r1 \<Rightarrow>
             if (if b = 240 then 144 else 128) \<le> c \<and> c \<le> (if b = 244 then 143 else 191) then
               (case r1 of
                  [] \<Rightarrow> [65533]
                | d # r2 \<Rightarrow>
                    if continuation d then
                      (case r2 of
                         [] \<Rightarrow> [65533]
                       | e # r3 \<Rightarrow>
                           if continuation e
                           then ((b - 240) * 262144 + (c - 128) * 4096 + (d - 128) * 64
                                 + (e - 128)) # utf8_decode r3
                           else 65533 # utf8_decode r2)
                    else 65533 # utf8_decode r1)
             else 65533 # utf8_decode r)
      else 65533 # utf8_decode r)"

definition code_units :: "nat \<Rightarrow> jsstring" where
  "code_units cp =
     (if cp < 65536 then [cp]
      else [55296 + (cp - 65536) div 1024, 56320 + (cp - 65536) mod 1024])"

definition toString_utf8 :: "buffer \<Rightarrow> jsstring" where
  "toString_utf8 bs = concat (map code_units (utf8_decode bs))"

subsection \<open>\<open>Date.prototype.toISOString\<close>\<close>

text \<open>
  A \<open>Date\<close> holds a time value, the milliseconds since the epoch, or \<open>NaN\<close> (here
  \<open>None\<close>) when it is invalid; that a time value is at most 8.64e15 in absolute value is
  not modelled. The civil date is computed from the day number in the proleptic Gregorian
  calendar.
\<close>

datatype Date = Date (time_value: "int option")

definition digits2 :: "nat \<Rightarrow> jsstring" where
  "digits2 n = [48 + n div 10 mod 10, 48 + n mod 10]"

definition digits3 :: "nat \<Rightarrow> jsstring" where
  "digits3 n = (48 + n div 100 mod 10) # digits2 n"

definition digits4 :: "nat \<Rightarrow> jsstring" where
  "digits4 n = (48 + n div 1000 mod 10) # digits3 n"

definition digits6 :: "nat \<Rightarrow> jsstring" where
  "digits6 n = (48 + n div 100000 mod 10) # (48 + n div 10000 mod 10) # digits4 n"

text \<open>The day number \<open>z\<close> counts days from 1970-01-01; the era is 400 years long and
  its years start in March.\<close>

definition day_of_era :: "int \<Rightarrow> int" where
  "day_of_era z = (z + 719468) mod 146097"

definition year_of_era :: "int \<Rightarrow> int" where
  "year_of_era z =
     (day_of_era z - day_of_era z div 1460 + day_of_era z div 36524
      - day_of_era z div 146096) div 365"

definition day_of_year :: "int \<Rightarrow> int" where
  "day_of_year z =
     day_of_era z - (365 * year_of_era z + year_of_era z div 4 - year_of_era z div 100)"

definition month_from_march :: "int \<Rightarrow> int" where
  "month_from_march z = (5 * day_of_year z + 2) div 153"

definition DateFromTime :: "int \<Rightarrow> nat" where
  "DateFromTime z = nat (day_of_year z - (153 * month_from_march z + 2) div 5 + 1)"

definition MonthFromTime :: "int \<Rightarrow> nat" where
  "MonthFromTime z =
     nat (if month_from_march z < 10 then month_from_march z + 3 else month_from_march z - 9)"

definition YearFromTime :: "int \<Rightarrow> int" where
  "YearFromTime z =
     year_of_era z + ((z + 719468) div 146097) * 400 + (if MonthFromTime z \<le> 2 then 1 else 0)"

definition iso_year :: "int \<Rightarrow> jsstring" where
  "iso_year y =
     (if 0 \<le> y \<and> y \<le> 9999 then digits4 (nat y)
      else (if y < 0 then js ''-'' else js ''+'') @ digits6 (nat \<bar>y\<bar>))"

definition iso_date :: "int \<Rightarrow> jsstring" where
  "iso_date z =
     iso_year (YearFromTime z) @ js ''-'' @ digits2 (MonthFromTime z) @ js ''-''
     @ digits2 (DateFromTime z)"

definition iso_time :: "nat \<Rightarrow> jsstring" where
  "iso_time ms =
     digits2 (ms div 3600000) @ js '':'' @ digits2 (ms div 60000 mod 60) @ js '':''
     @ digits2 (ms div 1000 mod 60) @ js ''.'' @ digits3 (ms mod 1000)"

definition toISOString :: "int \<Rightarrow> jsstring" where
  "toISOString t =
     iso_date (t div 86400000) @ js ''T'' @ iso_time (nat (t mod 86400000)) @ js ''Z''"

section \<open>JSON\<close>

text \<open>
  The values \<open>JSON.stringify\<close> is given and \<open>JSON.parse\<close> returns. An object keeps its
  properties in insertion order (that an engine lists keys that are array indices first
  is not modelled). A number is kept as the numeral that was read; its IEEE-754 value is
  not modelled.
\<close>

datatype jsval =
    JUndefined
  | JNull
  | JBool bool
  | JNumber jsstring
  | JString jsstring
  | JDate Date
  | JArray "jsval list"
  | JObject "(jsstring \<times> jsval) list"

datatype js_error =
    Error jsstring
  | TypeError
  | SyntaxError
  | ApiError jsstring

subsection \<open>\<open>JSON.stringify\<close>\<close>

definition unicode_escape :: "nat \<Rightarrow> jsstring" where
  "unicode_escape c =
     [92, 117, hex_digit (c div 4096), hex_digit (c div 256 mod 16),
      hex_digit (c div 16 mod 16), hex_digit (c mod 16)]"

definition quote_unit :: "nat \<Rightarrow> jsstring" where
  "quote_unit c =
     (if c = 8 then [92, 98]
      else if c = 9 then [92, 116]
      else if c = 10 then [92, 110]
      else if c = 12 then [92, 102]
      else if c = 13 then [92, 114]
      else if c = 34 then [92, 34]
      else if c = 92 then [92, 92]
      else if c < 32 \<or> high_surrogate c \<or> low_surrogate c then unicode_escape c
      else [c])"

fun quote_units :: "jsstring \<Rightarrow> jsstring" where
  "quote_units [] = []"
| "quote_units [c] = quote_unit c"
| "quote_units (c # d # r) =
     (if high_surrogate c \<and> low_surrogate d then c # d # quote_units r
      else quote_unit c @ quote_units (d # r))"

definition QuoteJSONString :: "jsstring \<Rightarrow> jsstring" where
  "QuoteJSONString s = 34 # quote_units s @ [34]"

fun join_comma :: "jsstring list \<Rightarrow> jsstring" where
  "join_comma [] = []"
| "join_comma [x] = x"
| "join_comma (x # y # r) = x @ 44 # join_comma (y # r)"

text \<open>\<open>None\<close> is the result \<open>undefined\<close>: a property with such a value is left out of
  an object, and is \<open>null\<close> in an array. A \<open>Date\<close> is serialised through its \<open>toJSON\<close>.\<close>

fun SerializeJSONProperty :: "jsval \<Rightarrow> jsstring option" where
  "SerializeJSONProperty JUndefined = None"
| "SerializeJSONProperty JNull = Some (js ''null'')"
| "SerializeJSONProperty (JBool b) = Some (if b then js ''true'' else js ''false'')"
| "SerializeJSONProperty (JNumber n) = Some n"
| "SerializeJSONProperty (JString s) = Some (QuoteJSONString s)"
| "SerializeJSONProperty (JDate d) =
     (case time_value d of
        None \<Rightarrow> Some (js ''null'')
      | Some t \<Rightarrow> Some (QuoteJSONString (toISOString t)))"
| "SerializeJSONProperty (JArray xs) =
     Some (91 # join_comma (map (\<lambda>x. case SerializeJSONProperty x of
                                         None \<Rightarrow> js ''null''
                                       | Some t \<Rightarrow> t) xs) @ [93])"
| "SerializeJSONProperty (JObject kvs) =
     Some (123 # join_comma (concat (map (\<lambda>kv. case SerializeJSONProperty (snd kv) of
                                                 None \<Rightarrow> []
                                               | Some t \<Rightarrow> [QuoteJSONString (fst kv) @ 58 # t])
                                         kvs)) @ [125])"

definition JSON_stringify :: "jsval \<Rightarrow> jsstring option" where
  "JSON_stringify v = SerializeJSONProperty v"

subsection \<open>\<open>JSON.parse\<close>\<close>

fun skip_ws :: "jsstring \<Rightarrow> jsstring" where
  "skip_ws [] = []"
| "skip_ws (c # r) = (if c = 9 \<or> c = 10 \<or> c = 13 \<or> c = 32 then skip_ws r else c # r)"

definition hex4 :: "nat \<Rightarrow> nat \<Rightarrow> nat \<Rightarrow> nat \<Rightarrow> nat option" where
  "hex4 a b c d =
     (case hex_value a of
        None \<Rightarrow> None
      | Some w \<Rightarrow>
          (case hex_value b of
             None \<Rightarrow> None
           | Some x \<Rightarrow>
               (case hex_value c of
                  None \<Rightarrow> None
                | Some y \<Rightarrow>
                    (case hex_value d of
                       None \<Rightarrow> None
                     | Some z \<Rightarrow> Some (4096 * w + 256 * x + 16 * y + z)))))"

definition unescape :: "nat \<Rightarrow> nat option" where
  "unescape e =
     (if e = 34 \<or> e = 92 \<or> e = 47 then Some e
      else if e = 98 then Some 8
      else if e = 102 then Some 12
      else if e = 110 then Some 10
      else if e = 114 then Some 13
      else if e = 116 then Some 9
      else None)"

definition cons_unit :: "nat \<Rightarrow> (jsstring \<times> jsstring) option \<Rightarrow> (jsstring \<times> jsstring) option" where
  "cons_unit c res = (case res of None \<Rightarrow> None | Some p \<Rightarrow> Some (c # fst p, snd p))"

text \<open>The characters of a string literal after its opening quote, and the rest of the text.\<close>

fun string_chars :: "jsstring \<Rightarrow> (jsstring \<times> jsstring) option" where
  "string_chars [] = None"
| "string_chars (c # r) =
     (if c = 34 then Some ([], r)
      else if c = 92 then
        (case r of
           [] \<Rightarrow> None
         | e # r1 \<Rightarrow>
             if e = 117 then
               (case r1 of
                  h1 # h2 # h3 # h4 # r2 \<Rightarrow>
                    (case hex4 h1 h2 h3 h4 of
                       None \<Rightarrow> None
                     | Some u \<Rightarrow> cons_unit u (string_chars r2))
                | _ \<Rightarrow> None)
             else
               (case unescape e of
                  None \<Rightarrow> None
                | Some u \<Rightarrow> cons_unit u (string_chars r1)))
      else if c < 32 then None
      else cons_unit c (string_chars r))"

definition is_digit :: "nat \<Rightarrow> bool" where
  "is_digit c \<longleftrightarrow> 48 \<le> c \<and> c \<le> 57"

definition number_int :: "jsstring \<Rightarrow> (jsstring \<times> jsstring) option" where
  "number_int s =
     (case s of
        [] \<Rightarrow> None
      | c # r \<Rightarrow>
          if c = 48 then Some ([48], r)
          else if is_digit c then Some (takeWhile is_digit s, dropWhile is_digit s)
          else None)"

definition number_frac :: "jsstring \<Rightarrow> (jsstring \<times> jsstring) option" where
  "number_frac s =
     (case s of
        [] \<Rightarrow> Some ([], s)
      | c # r \<Rightarrow>
          if c = 46 then
            (if takeWhile is_digit r = [] then None
             else Some (46 # takeWhile is_digit r, dropWhile is_digit r))
          else Some ([], s))"

definition exponent_digits :: "jsstring \<Rightarrow> jsstring \<Rightarrow> (jsstring \<times> jsstring) option" where
  "exponent_digits pre r =
     (if takeWhile is_digit r = [] then None
      else Some (pre @ takeWhile is_digit r, dropWhile is_digit r))"

definition number_exp :: "jsstring \<Rightarrow> (jsstring \<times> jsstring) option" where
  "number_exp s =
     (case s of
        [] \<Rightarrow> Some ([], s)
      | c # r \<Rightarrow>
          if c = 101 \<or> c = 69 then
            (case r of
               [] \<Rightarrow> None
             | d # r1 \<Rightarrow>
                 if d = 43 \<or> d = 45 then exponent_digits [c, d] r1
                 else exponent_digits [c] r)
          else Some ([], s))"

definition number_unsigned :: "jsstring \<Rightarrow> (jsstring \<times> jsstring) option" where
  "number_unsigned s =
     (case number_int s of
        None \<Rightarrow> None
      | Some i \<Rightarrow>
          (case number_frac (snd i) of
             None \<Rightarrow> None
           | Some f \<Rightarrow>
               (case number_exp (snd f) of
                  None \<Rightarrow> None
                | Some e \<Rightarrow> Some (fst i @ fst f @ fst e, snd e))))"

definition parse_number :: "jsstring \<Rightarrow> (jsstring \<times> jsstring) option" where
  "parse_number s =
     (case s of
        [] \<Rightarrow> None
      | c # r \<Rightarrow> if c = 45 then cons_unit 45 (number_unsigned r) else number_unsigned s)"

text \<open>A property set twice keeps its first place and its last value.\<close>

fun set_property :: "(jsstring \<times> jsval) list \<Rightarrow> jsstring \<Rightarrow> jsval \<Rightarrow> (jsstring \<times> jsval) list" where
  "set_property [] k v = [(k, v)]"
| "set_property (p # ps) k v = (if fst p = k then (k, v) # ps else p # set_property ps k v)"

text \<open>
  The recursive descent runs on fuel, one unit for each call. A call reads at least one
  character before it calls again, so the text itself with one more unit is enough fuel
  for every text: no fuel parses what this fuel does not (\<open>JSON_parse_fuel\<close> below).
\<close>

fun parse_value :: "nat list \<Rightarrow> jsstring \<Rightarrow> (jsval \<times> jsstring) option"
  and parse_elements :: "nat list \<Rightarrow> jsval list \<Rightarrow> jsstring \<Rightarrow> (jsval \<times> jsstring) option"
  and parse_members ::
    "nat list \<Rightarrow> (jsstring \<times> jsval) list \<Rightarrow> jsstring \<Rightarrow> (jsval \<times> jsstring) option"
where
  "parse_value [] s = None"
| "parse_value (f # fuel) s =
     (case skip_ws s of
        [] \<Rightarrow> None
      | c # r \<Rightarrow>
          if c = 123 then
            (case skip_ws r of
               [] \<Rightarrow> None
             | d # r1 \<Rightarrow> if d = 125 then Some (JObject [], r1) else parse_members fuel [] (d # r1))
          else if c = 91 then
            (case skip_ws r of
               [] \<Rightarrow> None
             | d # r1 \<Rightarrow> if d = 93 then Some (JArray [], r1) else parse_elements fuel [] (d # r1))
          else if c = 34 then
            (case string_chars r of
               None \<Rightarrow> None
             | Some p \<Rightarrow> Some (JString (fst p), snd p))
          else if c = 116 then
            (if take 3 r = js ''rue'' then Some (JBool True, drop 3 r) else None)
          else if c = 102 then
            (if take 4 r = js ''alse'' then Some (JBool False, drop 4 r) else None)
          else if c = 110 then
            (if take 3 r = js ''ull'' then Some (JNull, drop 3 r) else None)
          else
            (case parse_number (c # r) of
               None \<Rightarrow> None
             | Some p \<Rightarrow> Some (JNumber (fst p), snd p)))"
| "parse_elements [] acc s = None"
| "parse_elements (f # fuel) acc s =
     (case parse_value fuel s of
        None \<Rightarrow> None
      | Some p \<Rightarrow>
          (case skip_ws (snd p) of
             [] \<Rightarrow> None
           | c # r \<Rightarrow>
               if c = 44 then parse_elements fuel (acc @ [fst p]) r
               else if c = 93 then Some (JArray (acc @ [fst p]), r)
               else None))"
| "parse_members [] acc s = None"
| "parse_members (f # fuel) acc s =
     (case skip_ws s of
        [] \<Rightarrow> None
      | q # r \<Rightarrow>
          if q = 34 then
            (case string_chars r of
               None \<Rightarrow> None
             | Some k \<Rightarrow>
                 (case skip_ws (snd k) of
                    [] \<Rightarrow> None
                  | c # r1 \<Rightarrow>
                      if c = 58 then
                        (case parse_value fuel r1 of
                           None \<Rightarrow> None
                         | Some p \<Rightarrow>
                             (case skip_ws (snd p) of
                                [] \<Rightarrow> None
                              | d # r2 \<Rightarrow>
                                  if d = 44
                                  then parse_members fuel (set_property acc (fst k) (fst p)) r2
                                  else if d = 125
                                  then Some (JObject (set_property acc (fst k) (fst p)), r2)
                                  else None))
                      else None))
          else None)"

definition JSON_parse :: "jsstring \<Rightarrow> js_error + jsval" where
  "JSON_parse text =
     (case parse_value (0 # text) text of
        None \<Rightarrow> Inl SyntaxError
      | Some p \<Rightarrow> if skip_ws (snd p) = [] then Inr (fst p) else Inl SyntaxError)"

text \<open>A fuel is enough for \<open>n\<close> calls when it has \<open>n\<close> units.\<close>

definition enough :: "nat \<Rightarrow> nat list \<Rightarrow> bool" where
  "enough n fuel \<longleftrightarrow> n \<le> length fuel"

text \<open>The values that are a \<open>Date\<close>, and the objects none of whose properties is one.\<close>

fun is_Date :: "jsval \<Rightarrow> bool" where
  "is_Date (JDate d) = True"
| "is_Date v = False"

definition no_Date_property :: "(jsstring \<times> jsval) list \<Rightarrow> bool" where
  "no_Date_property kvs \<longleftrightarrow> list_all (\<lambda>kv. \<not> is_Date (snd kv)) kvs"

section \<open>The Aptos SDK\<close>

text \<open>
  The service talks to the ledger through \<open>AptosClient\<close> and \<open>AptosAccount\<close> only. What
  the SDK and the node behind it answer is a parameter of the model, the record \<open>aptos\<close>:
  each method is a function of the client, of the events so far and of its arguments,
  and returns the error it throws or its result. Every call the service makes, and every
  line it writes to the console, is appended to the list of events.
\<close>

record EntryFunctionPayload =
  function_name :: jsstring
  type_arguments :: "jsstring list"
  arguments :: "jsstring list"

record AptosAccount =
  signingKey :: buffer
  accountAddress :: jsstring

record RawTransaction =
  sender :: jsstring
  payload :: EntryFunctionPayload
  sequence_number :: nat

record PendingTransaction =
  hash :: jsstring

datatype AptosClient = AptosClient (nodeUrl: jsstring)

text \<open>
  A value in the answer of a \<open>view\<close> call, as the JSON of the node gives it: \<open>null\<close>, a
  boolean, a number, a string, an array or an object. A number stands as the text that
  \<open>toString\<close> gives for it, and an object holds a key once.
\<close>

datatype MoveValue =
    MoveNull
  | MoveBool bool
  | MoveNumber jsstring
  | MoveString jsstring
  | MoveVector "MoveValue list"
  | MoveStruct "(jsstring \<times> MoveValue) list"

text \<open>
  The answer to a \<open>view\<close> call: no value, or an array of values. The service checks
  neither the number of the values nor what they are.
\<close>

datatype view_response =
    NoResponse
  | Response "MoveValue list"

text \<open>
  The answers of a ledger that holds its products as the Move module declares them: the
  empty array, and the five values of a product (id, manufacturer, current owner, the
  metadata as a hex string, the history).
\<close>

definition EmptyResponse :: view_response where
  "EmptyResponse = Response []"

definition ProductResponse ::
  "jsstring \<Rightarrow> jsstring \<Rightarrow> jsstring \<Rightarrow> jsstring \<Rightarrow> jsstring list \<Rightarrow> view_response" where
  "ProductResponse i m c metadataHex historyArray =
     Response [MoveString i, MoveString m, MoveString c, MoveString metadataHex,
               MoveVector (map MoveString historyArray)]"

datatype event =
    GenerateTransaction jsstring EntryFunctionPayload
  | SignTransaction AptosAccount RawTransaction
  | SubmitTransaction buffer
  | WaitForTransaction jsstring
  | View EntryFunctionPayload
  | ConsoleError jsstring js_error

record aptos =
  newAptosAccount :: "buffer \<Rightarrow> js_error + AptosAccount"
  generateTransaction ::
    "AptosClient \<Rightarrow> event list \<Rightarrow> jsstring \<Rightarrow> EntryFunctionPayload \<Rightarrow> js_error + RawTransaction"
  signTransaction ::
    "AptosClient \<Rightarrow> event list \<Rightarrow> AptosAccount \<Rightarrow> RawTransaction \<Rightarrow> js_error + buffer"
  submitTransaction ::
    "AptosClient \<Rightarrow> event list \<Rightarrow> buffer \<Rightarrow> js_error + PendingTransaction"
  waitForTransaction :: "AptosClient \<Rightarrow> event list \<Rightarrow> jsstring \<Rightarrow> js_error option"
  view :: "AptosClient \<Rightarrow> event list \<Rightarrow> EntryFunctionPayload \<Rightarrow> js_error + view_response"

section \<open>The supply chain service\<close>

definition MODULE_ADDRESS :: jsstring where
  "MODULE_ADDRESS = js ''0x1''"

definition MODULE_NAME :: jsstring where
  "MODULE_NAME = js ''SupplyChain''"

definition RESOURCE_NAME :: jsstring where
  "RESOURCE_NAME = js ''product_manager''"

definition MODULE :: jsstring where
  "MODULE = MODULE_ADDRESS @ js ''::'' @ MODULE_NAME @ js ''::'' @ RESOURCE_NAME"

definition MINT_PRODUCT :: jsstring where
  "MINT_PRODUCT = MODULE @ js ''::mint_product''"

definition GET_PRODUCT_INFO :: jsstring where
  "GET_PRODUCT_INFO = MODULE @ js ''::get_product_info''"

definition TRANSFER_PRODUCT :: jsstring where
  "TRANSFER_PRODUCT = MODULE @ js ''::transfer_product''"

record ProductMetadata =
  name :: jsstring
  description :: jsstring
  dateManufactured :: Date
  ipfsLink :: "jsstring option"
  additionalInfo :: "(jsstring \<times> jsstring) list option"

text \<open>
  The casts of \<open>getProductInfo\<close> check nothing at run time. The metadata of a
  \<open>ProductInfo\<close> is what \<open>JSON.parse\<close> returned, a JSON value, and its other fields are
  the values of the answer as they came, \<open>undefined\<close> (here \<open>None\<close>) where the answer has
  none.
\<close>

record ProductInfo =
  info_id :: "MoveValue option"
  manufacturer :: "MoveValue option"
  currentOwner :: "MoveValue option"
  metadata :: jsval
  history :: "MoveValue option"

text \<open>The JavaScript object that a \<open>ProductMetadata\<close> is; an optional field that is absent
  is no property of it.\<close>

definition metadata_object :: "ProductMetadata \<Rightarrow> jsval" where
  "metadata_object m =
     JObject
       ([(js ''name'', JString (name m)),
         (js ''description'', JString (description m)),
         (js ''dateManufactured'', JDate (dateManufactured m))]
        @ (case ipfsLink m of None \<Rightarrow> [] | Some l \<Rightarrow> [(js ''ipfsLink'', JString l)])
        @ (case additionalInfo m of
             None \<Rightarrow> []
           | Some kvs \<Rightarrow>
               [(js ''additionalInfo'', JObject (map (\<lambda>kv. (fst kv, JString (snd kv))) kvs))]))"

record SupplyChain =
  client :: AptosClient
  companyAccount :: "AptosAccount option"

text \<open>\<open>s.replace(pat, rep)\<close> with a string pattern replaces its first occurrence; the
  replacement is taken as it is written, which it is for the empty string.\<close>

fun String_replace :: "jsstring \<Rightarrow> jsstring \<Rightarrow> jsstring \<Rightarrow> jsstring" where
  "String_replace pat rep [] = (if pat = [] then rep else [])"
| "String_replace pat rep (c # r) =
     (if take (length pat) (c # r) = pat then rep @ drop (length pat) (c # r)
      else c # String_replace pat rep r)"

text \<open>The constructor: an empty private key is falsy, as an absent one.\<close>

definition new_SupplyChain :: "aptos \<Rightarrow> jsstring \<Rightarrow> jsstring option \<Rightarrow> js_error + SupplyChain" where
  "new_SupplyChain w url privateKey =
     (case privateKey of
        None \<Rightarrow> Inr \<lparr>client = AptosClient url, companyAccount = None\<rparr>
      | Some key \<Rightarrow>
          if key = [] then Inr \<lparr>client = AptosClient url, companyAccount = None\<rparr>
          else
            (case newAptosAccount w (Buffer_from_hex (String_replace (js ''0x'') [] key)) of
               Inl e \<Rightarrow> Inl e
             | Inr account \<Rightarrow> Inr \<lparr>client = AptosClient url, companyAccount = Some account\<rparr>))"

definition not_initialized :: js_error where
  "not_initialized =
     Error (js ''Company account not initialized. Provide a private key in the constructor.'')"

text \<open>
  \<open>mintProduct\<close> and \<open>transferProduct\<close> end with the same four statements: generate,
  sign, submit, wait. An error of any of them ends the method with that error.
\<close>

definition submit_and_wait ::
  "aptos \<Rightarrow> SupplyChain \<Rightarrow> AptosAccount \<Rightarrow> EntryFunctionPayload \<Rightarrow> event list
   \<Rightarrow> (js_error + jsstring) \<times> event list" where
  "submit_and_wait w this account pl tr =
     (case generateTransaction w (client this) tr (accountAddress account) pl of
        Inl e \<Rightarrow> (Inl e, tr @ [GenerateTransaction (accountAddress account) pl])
      | Inr txnRequest \<Rightarrow>
          (case signTransaction w (client this)
                  (tr @ [GenerateTransaction (accountAddress account) pl]) account txnRequest of
             Inl e \<Rightarrow>
               (Inl e, tr @ [GenerateTransaction (accountAddress account) pl,
                             SignTransaction account txnRequest])
           | Inr signedTxn \<Rightarrow>
               (case submitTransaction w (client this)
                       (tr @ [GenerateTransaction (accountAddress account) pl,
                              SignTransaction account txnRequest]) signedTxn of
                  Inl e \<Rightarrow>
                    (Inl e, tr @ [GenerateTransaction (accountAddress account) pl,
                                  SignTransaction account txnRequest,
                                  SubmitTransaction signedTxn])
                | Inr txnResult \<Rightarrow>
                    (case waitForTransaction w (client this)
                            (tr @ [GenerateTransaction (accountAddress account) pl,
                                   SignTransaction account txnRequest,
                                   SubmitTransaction signedTxn]) (hash txnResult) of
                       Some e \<Rightarrow>
                         (Inl e, tr @ [GenerateTransaction (accountAddress account) pl,
                                       SignTransaction account txnRequest,
                                       SubmitTransaction signedTxn,
                                       WaitForTransaction (hash txnResult)])
                     | None \<Rightarrow>
                         (Inr (hash txnResult),
                          tr @ [GenerateTransaction (accountAddress account) pl,
                                SignTransaction account txnRequest,
                                SubmitTransaction signedTxn,
                                WaitForTransaction (hash txnResult)])))))"

text \<open>The metadata as \<open>mintProduct\<close> hands it to the ledger: the JSON text, as UTF-8 bytes,
  in hex. \<open>Buffer.from\<close> throws a \<open>TypeError\<close> when it is given \<open>undefined\<close>.\<close>

definition serializedMetadata :: "ProductMetadata \<Rightarrow> js_error + jsstring" where
  "serializedMetadata m =
     (case JSON_stringify (metadata_object m) of
        None \<Rightarrow> Inl TypeError
      | Some text \<Rightarrow> Inr (toString_hex (Buffer_from text)))"

definition mintProduct ::
  "aptos \<Rightarrow> SupplyChain \<Rightarrow> jsstring \<Rightarrow> ProductMetadata \<Rightarrow> event list
   \<Rightarrow> (js_error + jsstring) \<times> event list" where
  "mintProduct w this productId m tr =
     (case companyAccount this of
        None \<Rightarrow> (Inl not_initialized, tr)
      | Some account \<Rightarrow>
          (case serializedMetadata m of
             Inl e \<Rightarrow> (Inl e, tr)
           | Inr h \<Rightarrow>
               submit_and_wait w this account
                 \<lparr>function_name = MINT_PRODUCT, type_arguments = [],
                  arguments = [productId, js ''0x'' @ h]\<rparr> tr))"

definition transferProduct ::
  "aptos \<Rightarrow> SupplyChain \<Rightarrow> jsstring \<Rightarrow> jsstring \<Rightarrow> event list
   \<Rightarrow> (js_error + jsstring) \<times> event list" where
  "transferProduct w this productId newOwnerAddress tr =
     (case companyAccount this of
        None \<Rightarrow> (Inl not_initialized, tr)
      | Some account \<Rightarrow>
          submit_and_wait w this account
            \<lparr>function_name = TRANSFER_PRODUCT, type_arguments = [],
             arguments = [newOwnerAddress, productId]\<rparr> tr)"

text \<open>The metadata as \<open>getProductInfo\<close> reads it back: the hex string without its first two
  characters, as bytes, as UTF-8 text, parsed.\<close>

definition metadataJson :: "jsstring \<Rightarrow> jsstring" where
  "metadataJson metadataHex = toString_utf8 (Buffer_from_hex (drop 2 metadataHex))"

definition get_product_info_request :: "jsstring \<Rightarrow> EntryFunctionPayload" where
  "get_product_info_request productId =
     \<lparr>function_name = GET_PRODUCT_INFO, type_arguments = [], arguments = [productId]\<rparr>"

text \<open>The element at an index of the destructured answer, \<open>undefined\<close> past its end.\<close>

definition element :: "MoveValue list \<Rightarrow> nat \<Rightarrow> MoveValue option" where
  "element xs i = (if i < length xs then Some (xs ! i) else None)"

text \<open>
  \<open>v.toString()\<close>: it throws a \<open>TypeError\<close> on \<open>null\<close>, and on an object whose own
  \<open>toString\<close> is a value of the answer, which is no function. An array joins the strings
  of its elements with commas, the empty string for \<open>null\<close>.
\<close>

fun ToString :: "MoveValue \<Rightarrow> js_error + jsstring"
  and join_strings :: "MoveValue list \<Rightarrow> js_error + jsstring"
where
  "ToString MoveNull = Inl TypeError"
| "ToString (MoveBool b) = Inr (if b then js ''true'' else js ''false'')"
| "ToString (MoveNumber n) = Inr n"
| "ToString (MoveString s) = Inr s"
| "ToString (MoveVector xs) = join_strings xs"
| "ToString (MoveStruct kvs) =
     (if map_of kvs (js ''toString'') = None then Inr (js ''[object Object]'')
      else Inl TypeError)"
| "join_strings [] = Inr []"
| "join_strings (x # xs) =
     (case (if x = MoveNull then Inr [] else ToString x) of
        Inl e \<Rightarrow> Inl e
      | Inr s \<Rightarrow>
          if xs = [] then Inr s
          else (case join_strings xs of Inl e \<Rightarrow> Inl e | Inr t \<Rightarrow> Inr (s @ 44 # t)))"

text \<open>\<open>metadataHex.toString()\<close>, where \<open>metadataHex\<close> may be \<open>undefined\<close>.\<close>

definition call_toString :: "MoveValue option \<Rightarrow> js_error + jsstring" where
  "call_toString v = (case v of None \<Rightarrow> Inl TypeError | Some x \<Rightarrow> ToString x)"

text \<open>The body of the \<open>try\<close> block of \<open>getProductInfo\<close>.\<close>

definition getProductInfo_try ::
  "aptos \<Rightarrow> SupplyChain \<Rightarrow> jsstring \<Rightarrow> event list \<Rightarrow> js_error + ProductInfo option" where
  "getProductInfo_try w this productId tr =
     (case view w (client this) tr (get_product_info_request productId) of
        Inl e \<Rightarrow> Inl e
      | Inr NoResponse \<Rightarrow> Inr None
      | Inr (Response response) \<Rightarrow>
          if response = [] then Inr None
          else
            (case call_toString (element response 3) of
               Inl e \<Rightarrow> Inl e
             | Inr metadataHex \<Rightarrow>
                 (case JSON_parse (metadataJson metadataHex) of
                    Inl e \<Rightarrow> Inl e
                  | Inr md \<Rightarrow>
                      Inr (Some \<lparr>info_id = element response 0,
                                 manufacturer = element response 1,
                                 currentOwner = element response 2,
                                 metadata = md,
                                 history = element response 4\<rparr>))))"

text \<open>The \<open>catch\<close> block writes the error to the console and returns \<open>null\<close>.\<close>

definition getProductInfo ::
  "aptos \<Rightarrow> SupplyChain \<Rightarrow> jsstring \<Rightarrow> event list
   \<Rightarrow> (js_error + ProductInfo option) \<times> event list" where
  "getProductInfo w this productId tr =
     (case getProductInfo_try w this productId tr of
        Inl e \<Rightarrow>
          (Inr None,
           tr @ [View (get_product_info_request productId),
                 ConsoleError (js ''Error fetching product info:'') e])
      | Inr r \<Rightarrow> (Inr r, tr @ [View (get_product_info_request productId)]))"

definition checkOnChainExist ::
  "aptos \<Rightarrow> SupplyChain \<Rightarrow> jsstring \<Rightarrow> event list \<Rightarrow> (js_error + bool) \<times> event list" where
  "checkOnChainExist w this productId tr =
     (case getProductInfo w this productId tr of
        (Inl e, tr1) \<Rightarrow> (Inl e, tr1)
      | (Inr productInfo, tr1) \<Rightarrow> (Inr (productInfo \<noteq> None), tr1))"

text \<open>
  \<open>v.length\<close>, where \<open>v\<close> may be \<open>undefined\<close>: it throws a \<open>TypeError\<close> on \<open>undefined\<close> and
  on \<open>null\<close>, is the number of the elements of an array and of the code units of a
  string, the own property of that name of an object, and \<open>undefined\<close> otherwise.
\<close>

datatype length_value =
    Length nat
  | NoLength
  | OwnLength MoveValue

fun get_length :: "MoveValue option \<Rightarrow> js_error + length_value" where
  "get_length None = Inl TypeError"
| "get_length (Some MoveNull) = Inl TypeError"
| "get_length (Some (MoveBool b)) = Inr NoLength"
| "get_length (Some (MoveNumber n)) = Inr NoLength"
| "get_length (Some (MoveString s)) = Inr (Length (length s))"
| "get_length (Some (MoveVector xs)) = Inr (Length (length xs))"
| "get_length (Some (MoveStruct kvs)) =
     Inr (case map_of kvs (js ''length'') of None \<Rightarrow> NoLength | Some v \<Rightarrow> OwnLength v)"

text \<open>
  The result of \<open>verifyProduct\<close>. An optional field is absent (\<open>None\<close>) or holds a value,
  which for the manufacturer and the current owner may be \<open>undefined\<close>.
\<close>

record Verification =
  exists :: bool
  isAuthentic :: bool
  manufacturer :: "MoveValue option option"
  currentOwner :: "MoveValue option option"
  transferCount :: "length_value option"

definition verifyProduct ::
  "aptos \<Rightarrow> SupplyChain \<Rightarrow> jsstring \<Rightarrow> jsstring \<Rightarrow> event list
   \<Rightarrow> (js_error + Verification) \<times> event list" where
  "verifyProduct w this productId expectedManufacturer tr =
     (case getProductInfo w this productId tr of
        (Inl e, tr1) \<Rightarrow> (Inl e, tr1)
      | (Inr None, tr1) \<Rightarrow>
          (Inr \<lparr>exists = False, isAuthentic = False, manufacturer = None,
                currentOwner = None, transferCount = None\<rparr>, tr1)
      | (Inr (Some productInfo), tr1) \<Rightarrow>
          (case get_length (history productInfo) of
             Inl e \<Rightarrow> (Inl e, tr1)
           | Inr n \<Rightarrow>
               (Inr \<lparr>exists = True,
                     isAuthentic =
                       (ProductInfo.manufacturer productInfo
                        = Some (MoveString expectedManufacturer)),
                     manufacturer = Some (ProductInfo.manufacturer productInfo),
                     currentOwner = Some (ProductInfo.currentOwner productInfo),
                     transferCount = Some n\<rparr>, tr1)))"

text \<open>An empty \<open>dAppUrl\<close> is falsy, as an absent one.\<close>

definition generateProductQrData :: "jsstring \<Rightarrow> jsstring option \<Rightarrow> jsstring" where
  "generateProductQrData productId dAppUrl =
     (case dAppUrl of
        None \<Rightarrow> js ''supplychain:product:'' @ productId
      | Some url \<Rightarrow>
          if url \<noteq> [] then url @ js ''/verify?id='' @ productId
          else js ''supplychain:product:'' @ productId)"

text \<open>The instance of the module, built without a private key from the environment's
  \<open>APTOS_NODE_URL\<close>, and the function exported for backward compatibility.\<close>

definition module_nodeUrl :: "jsstring option \<Rightarrow> jsstring" where
  "module_nodeUrl APTOS_NODE_URL =
     (case APTOS_NODE_URL of
        None \<Rightarrow> js ''https://fullnode.devnet.aptoslabs.com/v1''
      | Some url \<Rightarrow> if url \<noteq> [] then url else js ''https://fullnode.devnet.aptoslabs.com/v1'')"

definition supplyChain :: "aptos \<Rightarrow> jsstring option \<Rightarrow> js_error + SupplyChain" where
  "supplyChain w APTOS_NODE_URL = new_SupplyChain w (module_nodeUrl APTOS_NODE_URL) None"

definition checkOnChainExist_export ::
  "aptos \<Rightarrow> jsstring option \<Rightarrow> jsstring \<Rightarrow> event list \<Rightarrow> (js_error + bool) \<times> event list" where
  "checkOnChainExist_export w APTOS_NODE_URL ident tr =
     (case supplyChain w APTOS_NODE_URL of
        Inl e \<Rightarrow> (Inl e, tr)
      | Inr this \<Rightarrow> checkOnChainExist w this ident tr)"

section \<open>The existence endpoint of the server\<close>

text \<open>
  A request is the list of its decoded query parameters; \<open>c.req.query(k)\<close> is the first
  value of \<open>k\<close>. The response \<open>c.json(v)\<close> is the JSON value \<open>v\<close>.
\<close>

type_synonym request = "(jsstring \<times> jsstring) list"

definition req_query :: "request \<Rightarrow> jsstring \<Rightarrow> jsstring option" where
  "req_query req k = map_of req k"

definition missing_id :: jsval where
  "missing_id = JObject [(js ''message'', JString (js ''MISSING ID''))]"

definition get_root ::
  "aptos \<Rightarrow> jsstring option \<Rightarrow> request \<Rightarrow> event list \<Rightarrow> (js_error + jsval) \<times> event list" where
  "get_root w APTOS_NODE_URL req tr =
     (case req_query req (js ''i'') of
        None \<Rightarrow> (Inr missing_id, tr)
      | Some ident \<Rightarrow>
          if ident = [] then (Inr missing_id, tr)
          else
            (case checkOnChainExist_export w APTOS_NODE_URL ident tr of
               (Inl e, tr1) \<Rightarrow> (Inl e, tr1)
             | (Inr exist, tr1) \<Rightarrow>
                 (Inr (JObject [(js ''id'', JString ident), (js ''exist'', JBool exist)]), tr1)))"

section \<open>Reading a scan payload\<close>

text \<open>
  Modelled from the spec: \<open>fromScanPayload\<close>, the inverse of \<open>generateProductQrData\<close>, is
  not in the source. The spec gives it two grammars, \<open>supplychain:product:{id}\<close> and
  \<open>{appUrl}/verify?id={id}\<close>, and a \<open>ParseError\<close> for every other string. The bare form is
  tried first; in the URL form the id is what follows the first \<open>/verify?id=\<close>.
\<close>

datatype scan_error = ParseError

fun after_verify_id :: "jsstring \<Rightarrow> jsstring option" where
  "after_verify_id [] = None"
| "after_verify_id (c # r) =
     (if take 11 (c # r) = js ''/verify?id='' then Some (drop 11 (c # r))
      else after_verify_id r)"

definition fromScanPayload :: "jsstring \<Rightarrow> scan_error + jsstring" where
  "fromScanPayload s =
     (if take 20 s = js ''supplychain:product:'' then Inr (drop 20 s)
      else (case after_verify_id s of None \<Rightarrow> Inl ParseError | Some i \<Rightarrow> Inr i))"

section \<open>An example ledger\<close>

text \<open>
  A node that accepts every transaction and answers every \<open>view\<close> call with the given
  answer, an account, a service that holds it, and the metadata of a product. The closed
  instances below are stated on them.
\<close>

definition example_account :: AptosAccount where
  "example_account = \<lparr>signingKey = [1, 2, 3], accountAddress = js ''0xa11ce''\<rparr>"

definition example_ledger :: "js_error + view_response \<Rightarrow> aptos" where
  "example_ledger answer =
     \<lparr>newAptosAccount = (\<lambda>key. Inr \<lparr>signingKey = key, accountAddress = js ''0xa11ce''\<rparr>),
      generateTransaction = (\<lambda>c tr a pl. Inr \<lparr>sender = a, payload = pl, sequence_number = 0\<rparr>),
      signTransaction = (\<lambda>c tr a txn. Inr (signingKey a)),
      submitTransaction = (\<lambda>c tr signed. Inr \<lparr>hash = js ''0xbeef''\<rparr>),
      waitForTransaction = (\<lambda>c tr h. None),
      view = (\<lambda>c tr request. answer)\<rparr>"

definition example_chain :: SupplyChain where
  "example_chain =
     \<lparr>client = AptosClient (js ''https://node.example''), companyAccount = Some example_account\<rparr>"

definition shoe :: ProductMetadata where
  "shoe =
     \<lparr>name = js ''Shoe'', description = js ''Running shoe'', dateManufactured = Date (Some 0),
      ipfsLink = None, additionalInfo = None\<rparr>"

section \<open>Properties\<close>

text \<open>
  The definitions that the closed instances below unfold to evaluate the codec and the
  service on concrete values.
\<close>

lemmas codec_defs =
  js_def toISOString_def iso_date_def iso_time_def iso_year_def YearFromTime_def
  MonthFromTime_def DateFromTime_def month_from_march_def day_of_year_def year_of_era_def
  day_of_era_def digits2_def digits3_def digits4_def digits6_def Buffer_from_def
  utf8_bytes_def hex_digit_def toString_utf8_def code_units_def hex_value_def
  high_surrogate_def low_surrogate_def continuation_def unicode_escape_def quote_unit_def
  QuoteJSONString_def JSON_stringify_def hex4_def unescape_def cons_unit_def is_digit_def
  number_int_def number_frac_def exponent_digits_def number_exp_def number_unsigned_def
  parse_number_def JSON_parse_def metadata_object_def serializedMetadata_def metadataJson_def

lemmas answer_defs =
  EmptyResponse_def ProductResponse_def element_def call_toString_def

subsection \<open>The parser of \<open>JSON.parse\<close>\<close>

text \<open>
  What a parser returns as the rest of its text is shorter than the text.
\<close>

lemma skip_ws_length: "length (skip_ws s) \<le> length s"
  by (induction s) auto

lemma skip_ws_Cons: "skip_ws s = c # r \<Longrightarrow> length r < length s"
  using skip_ws_length [of s] by simp

lemma dropWhile_length: "length (dropWhile P s) \<le> length s"
  by (induction s) auto

lemma number_int_length: "number_int s = Some p \<Longrightarrow> length (snd p) < length s"
  using dropWhile_length [of is_digit "tl s"]
  by (auto simp: number_int_def split: list.splits if_splits)

lemma number_frac_length: "number_frac s = Some p \<Longrightarrow> length (snd p) \<le> length s"
  using dropWhile_length [of is_digit "tl s"]
  by (auto simp: number_frac_def split: list.splits if_splits)

lemma number_exp_length: "number_exp s = Some p \<Longrightarrow> length (snd p) \<le> length s"
  using dropWhile_length [of is_digit "tl s"] dropWhile_length [of is_digit "tl (tl s)"]
  by (auto simp: number_exp_def exponent_digits_def split: list.splits if_splits)

lemma number_unsigned_length: "number_unsigned s = Some p \<Longrightarrow> length (snd p) < length s"
  by (fastforce simp: number_unsigned_def split: option.splits
      dest: number_int_length number_frac_length number_exp_length)

lemma parse_number_length: "parse_number s = Some p \<Longrightarrow> length (snd p) < length s"
  by (fastforce simp: parse_number_def cons_unit_def split: list.splits option.splits if_splits
      dest: number_unsigned_length)

lemma cons_unit_Some: "cons_unit c res = Some p \<Longrightarrow> \<exists>q. res = Some q \<and> snd p = snd q"
  by (auto simp: cons_unit_def split: option.splits)

lemma string_chars_length: "string_chars s = Some p \<Longrightarrow> length (snd p) < length s"
proof (induction "length s" arbitrary: s p rule: less_induct)
  case less
  from less.prems obtain c r where s: "s = c # r"
    by (cases s) auto
  show ?case
  proof (cases "c = 34")
    case True
    then show ?thesis using less.prems s by auto
  next
    case c34: False
    show ?thesis
    proof (cases "c = 92")
      case c92: True
      from less.prems s c92 obtain e r1 where r: "r = e # r1"
        by (cases r) auto
      show ?thesis
      proof (cases "e = 117")
        case True
        from less.prems s c92 r True obtain h1 h2 h3 h4 r2 where r1: "r1 = h1 # h2 # h3 # h4 # r2"
          by (auto split: list.splits)
        from less.prems s c92 r True r1 obtain u where "cons_unit u (string_chars r2) = Some p"
          by (auto split: option.splits)
        then obtain q where q: "string_chars r2 = Some q" "snd p = snd q"
          using cons_unit_Some by blast
        have "length (snd q) < length r2"
          using less.hyps [of r2 q] q(1) s r r1 by simp
        then show ?thesis using q(2) s r r1 by simp
      next
        case False
        from less.prems s c92 r False obtain u where "cons_unit u (string_chars r1) = Some p"
          by (auto split: option.splits)
        then obtain q where q: "string_chars r1 = Some q" "snd p = snd q"
          using cons_unit_Some by blast
        have "length (snd q) < length r1"
          using less.hyps [of r1 q] q(1) s r by simp
        then show ?thesis using q(2) s r by simp
      qed
    next
      case False
      from less.prems s c34 False have "cons_unit c (string_chars r) = Some p"
        by (auto split: if_splits)
      then obtain q where q: "string_chars r = Some q" "snd p = snd q"
        using cons_unit_Some by blast
      have "length (snd q) < length r"
        using less.hyps [of r q] q(1) s by simp
      then show ?thesis using q(2) s by simp
    qed
  qed
qed



lemma parse_value_Cons_inv:
  assumes "parse_value (f # fuel) s = Some p"
  obtains (obj0) r r1 where "skip_ws s = 123 # r" "skip_ws r = 125 # r1" "p = (JObject [], r1)"
  | (obj) r d r1 where "skip_ws s = 123 # r" "skip_ws r = d # r1" "d \<noteq> 125"
      "parse_members fuel [] (d # r1) = Some p"
  | (arr0) r r1 where "skip_ws s = 91 # r" "skip_ws r = 93 # r1" "p = (JArray [], r1)"
  | (arr) r d r1 where "skip_ws s = 91 # r" "skip_ws r = d # r1" "d \<noteq> 93"
      "parse_elements fuel [] (d # r1) = Some p"
  | (str) r q where "skip_ws s = 34 # r" "string_chars r = Some q" "p = (JString (fst q), snd q)"
  | (true) r where "skip_ws s = 116 # r" "take 3 r = js ''rue''" "p = (JBool True, drop 3 r)"
  | (false) r where "skip_ws s = 102 # r" "take 4 r = js ''alse''" "p = (JBool False, drop 4 r)"
  | (null) r where "skip_ws s = 110 # r" "take 3 r = js ''ull''" "p = (JNull, drop 3 r)"
  | (num) c r q where "skip_ws s = c # r" "c \<noteq> 123" "c \<noteq> 91" "c \<noteq> 34" "c \<noteq> 116"
      "c \<noteq> 102" "c \<noteq> 110" "parse_number (c # r) = Some q" "p = (JNumber (fst q), snd q)"
proof -
  from assms obtain c r where s: "skip_ws s = c # r"
    by (auto split: list.splits)
  consider "c = 123" | "c = 91" | "c = 34" | "c = 116" | "c = 102" | "c = 110"
    | "c \<noteq> 123" "c \<noteq> 91" "c \<noteq> 34" "c \<noteq> 116" "c \<noteq> 102" "c \<noteq> 110"
    by blast
  then show thesis
  proof cases
    case 1
    with assms s obtain d r1 where d: "skip_ws r = d # r1"
      by (auto split: list.splits)
    show ?thesis
    proof (cases "d = 125")
      case True
      then show ?thesis using assms s 1 d obj0 by auto
    next
      case False
      then show ?thesis using assms s 1 d obj by auto
    qed
  next
    case 2
    with assms s obtain d r1 where d: "skip_ws r = d # r1"
      by (auto split: list.splits)
    show ?thesis
    proof (cases "d = 93")
      case True
      then show ?thesis using assms s 2 d arr0 by auto
    next
      case False
      then show ?thesis using assms s 2 d arr by auto
    qed
  next
    case 3
    then show ?thesis using assms s str by (auto split: option.splits)
  next
    case 4
    then show ?thesis using assms s true by (auto split: if_splits)
  next
    case 5
    then show ?thesis using assms s false by (auto split: if_splits)
  next
    case 6
    then show ?thesis using assms s null by (auto split: if_splits)
  next
    case 7
    then show ?thesis using assms s num [of c r] by (auto split: option.splits)
  qed
qed


lemma parse_elements_Cons_inv:
  assumes "parse_elements (f # fuel) acc s = Some p"
  obtains (more) q r where "parse_value fuel s = Some q" "skip_ws (snd q) = 44 # r"
      "parse_elements fuel (acc @ [fst q]) r = Some p"
  | (last) q r where "parse_value fuel s = Some q" "skip_ws (snd q) = 93 # r"
      "p = (JArray (acc @ [fst q]), r)"
proof -
  from assms obtain q where q: "parse_value fuel s = Some q"
    by (auto split: option.splits)
  with assms obtain c r where c: "skip_ws (snd q) = c # r"
    by (auto split: list.splits)
  show thesis
  proof (cases "c = 44")
    case True
    then show ?thesis using assms q c more by auto
  next
    case False
    then show ?thesis using assms q c last by (auto split: if_splits)
  qed
qed

lemma parse_members_Cons_inv:
  assumes "parse_members (f # fuel) acc s = Some p"
  obtains (more) r k r1 q r2 where "skip_ws s = 34 # r" "string_chars r = Some k"
      "skip_ws (snd k) = 58 # r1" "parse_value fuel r1 = Some q" "skip_ws (snd q) = 44 # r2"
      "parse_members fuel (set_property acc (fst k) (fst q)) r2 = Some p"
  | (last) r k r1 q r2 where "skip_ws s = 34 # r" "string_chars r = Some k"
      "skip_ws (snd k) = 58 # r1" "parse_value fuel r1 = Some q" "skip_ws (snd q) = 125 # r2"
      "p = (JObject (set_property acc (fst k) (fst q)), r2)"
proof -
  from assms obtain c r where s: "skip_ws s = c # r"
    by (auto split: list.splits)
  with assms have c: "c = 34"
    by (auto split: if_splits)
  with assms s obtain k where k: "string_chars r = Some k"
    by (auto split: option.splits)
  with assms s c obtain e r1 where e: "skip_ws (snd k) = e # r1"
    by (auto split: list.splits)
  with assms s c k have e58: "e = 58"
    by (auto split: if_splits)
  with assms s c k e obtain q where q: "parse_value fuel r1 = Some q"
    by (auto split: option.splits)
  with assms s c k e e58 obtain d r2 where d: "skip_ws (snd q) = d # r2"
    by (auto split: list.splits)
  show thesis
  proof (cases "d = 44")
    case True
    then show ?thesis using assms s c k e e58 q d more by auto
  next
    case False
    then show ?thesis using assms s c k e e58 q d last by (auto split: if_splits)
  qed
qed

text \<open>
  The fuel: a parse that succeeds with some fuel succeeds, with the same result, with every
  fuel that has a unit for each character it reads, and so with the fuel of \<open>JSON_parse\<close>.
\<close>

lemma enough_Cons:
  assumes "enough (Suc n) fuel"
  obtains f fuel1 where "fuel = f # fuel1" "enough n fuel1"
  using assms by (cases fuel) (auto simp: enough_def)

lemma enough_mono: "enough n fuel \<Longrightarrow> m \<le> n \<Longrightarrow> enough m fuel"
  by (simp add: enough_def)

lemma fuel_adequate:
  "(\<forall>s p. parse_value fuel s = Some p \<longrightarrow>
      length (snd p) < length s
      \<and> (\<forall>fuel1. enough (length s - length (snd p)) fuel1 \<longrightarrow> parse_value fuel1 s = Some p))
   \<and> (\<forall>acc s p. parse_elements fuel acc s = Some p \<longrightarrow>
      length (snd p) < length s
      \<and> (\<forall>fuel1. enough (length s - length (snd p)) fuel1
            \<longrightarrow> parse_elements fuel1 acc s = Some p))
   \<and> (\<forall>acc s p. parse_members fuel acc s = Some p \<longrightarrow>
      length (snd p) < length s
      \<and> (\<forall>fuel1. enough (length s - length (snd p)) fuel1
            \<longrightarrow> parse_members fuel1 acc s = Some p))"
proof (induction fuel)
  case Nil
  show ?case by simp
next
  case (Cons f fuel)
  then have V: "\<And>s p. parse_value fuel s = Some p \<Longrightarrow> length (snd p) < length s"
    and V': "\<And>s p fuel1. parse_value fuel s = Some p \<Longrightarrow>
               enough (length s - length (snd p)) fuel1 \<Longrightarrow> parse_value fuel1 s = Some p"
    and E: "\<And>acc s p. parse_elements fuel acc s = Some p \<Longrightarrow> length (snd p) < length s"
    and E': "\<And>acc s p fuel1. parse_elements fuel acc s = Some p \<Longrightarrow>
               enough (length s - length (snd p)) fuel1 \<Longrightarrow> parse_elements fuel1 acc s = Some p"
    and M: "\<And>acc s p. parse_members fuel acc s = Some p \<Longrightarrow> length (snd p) < length s"
    and M': "\<And>acc s p fuel1. parse_members fuel acc s = Some p \<Longrightarrow>
               enough (length s - length (snd p)) fuel1 \<Longrightarrow> parse_members fuel1 acc s = Some p"
    by blast+
  have v_ok: "length (snd p) < length s
      \<and> (\<forall>fuel1. enough (length s - length (snd p)) fuel1 \<longrightarrow> parse_value fuel1 s = Some p)"
    if a: "parse_value (f # fuel) s = Some p" for s p
    using a
  proof (cases rule: parse_value_Cons_inv)
    case (obj0 r r1)
    have l: "length r1 < length r" "length r < length s"
      using obj0 skip_ws_Cons by blast+
    have "parse_value fuel1 s = Some p" if "enough (length s - length (snd p)) fuel1" for fuel1
    proof -
      from that l obj0 have "enough (Suc 0) fuel1"
        by (auto elim: enough_mono)
      then obtain f1 fuel2 where "fuel1 = f1 # fuel2"
        by (rule enough_Cons)
      then show ?thesis using obj0 by simp
    qed
    then show ?thesis using l obj0 by simp
  next
    case (obj r d r1)
    have l: "length (d # r1) \<le> length r" "length r < length s"
      using obj skip_ws_Cons [of r d r1] skip_ws_Cons [of s 123 r] by simp_all
    have m: "length (snd p) < length (d # r1)"
      using M obj(4) by blast
    have "parse_value fuel1 s = Some p" if "enough (length s - length (snd p)) fuel1" for fuel1
    proof -
      from that l m have "enough (Suc (length (d # r1) - length (snd p))) fuel1"
        by (auto elim: enough_mono)
      then obtain f1 fuel2 where f: "fuel1 = f1 # fuel2"
        and e: "enough (length (d # r1) - length (snd p)) fuel2"
        by (rule enough_Cons)
      have "parse_members fuel2 [] (d # r1) = Some p"
        using M' [OF obj(4) e] .
      then show ?thesis using obj f by simp
    qed
    then show ?thesis using l m by simp
  next
    case (arr0 r r1)
    have l: "length r1 < length r" "length r < length s"
      using arr0 skip_ws_Cons by blast+
    have "parse_value fuel1 s = Some p" if "enough (length s - length (snd p)) fuel1" for fuel1
    proof -
      from that l arr0 have "enough (Suc 0) fuel1"
        by (auto elim: enough_mono)
      then obtain f1 fuel2 where "fuel1 = f1 # fuel2"
        by (rule enough_Cons)
      then show ?thesis using arr0 by simp
    qed
    then show ?thesis using l arr0 by simp
  next
    case (arr r d r1)
    have l: "length (d # r1) \<le> length r" "length r < length s"
      using arr skip_ws_Cons [of r d r1] skip_ws_Cons [of s 91 r] by simp_all
    have m: "length (snd p) < length (d # r1)"
      using E arr(4) by blast
    have "parse_value fuel1 s = Some p" if "enough (length s - length (snd p)) fuel1" for fuel1
    proof -
      from that l m have "enough (Suc (length (d # r1) - length (snd p))) fuel1"
        by (auto elim: enough_mono)
      then obtain f1 fuel2 where f: "fuel1 = f1 # fuel2"
        and e: "enough (length (d # r1) - length (snd p)) fuel2"
        by (rule enough_Cons)
      have "parse_elements fuel2 [] (d # r1) = Some p"
        using E' [OF arr(4) e] .
      then show ?thesis using arr f by simp
    qed
    then show ?thesis using l m by simp
  next
    case (str r q)
    have l: "length (snd q) < length r" "length r < length s"
      using str string_chars_length skip_ws_Cons by blast+
    have "parse_value fuel1 s = Some p" if "enough (length s - length (snd p)) fuel1" for fuel1
    proof -
      from that l str have "enough (Suc 0) fuel1"
        by (auto elim: enough_mono)
      then obtain f1 fuel2 where "fuel1 = f1 # fuel2"
        by (rule enough_Cons)
      then show ?thesis using str by simp
    qed
    then show ?thesis using l str by simp
  next
    case (true r)
    have l: "length (drop 3 r) \<le> length r" "length r < length s"
      using true skip_ws_Cons [of s 116 r] by simp_all
    have "parse_value fuel1 s = Some p" if "enough (length s - length (snd p)) fuel1" for fuel1
    proof -
      from that l true have "enough (Suc 0) fuel1"
        by (auto elim: enough_mono)
      then obtain f1 fuel2 where "fuel1 = f1 # fuel2"
        by (rule enough_Cons)
      then show ?thesis using true by simp
    qed
    then show ?thesis using l true by simp
  next
    case (false r)
    have l: "length (drop 4 r) \<le> length r" "length r < length s"
      using false skip_ws_Cons [of s 102 r] by simp_all
    have "parse_value fuel1 s = Some p" if "enough (length s - length (snd p)) fuel1" for fuel1
    proof -
      from that l false have "enough (Suc 0) fuel1"
        by (auto elim: enough_mono)
      then obtain f1 fuel2 where "fuel1 = f1 # fuel2"
        by (rule enough_Cons)
      then show ?thesis using false by simp
    qed
    then show ?thesis using l false by simp
  next
    case (null r)
    have l: "length (drop 3 r) \<le> length r" "length r < length s"
      using null skip_ws_Cons [of s 110 r] by simp_all
    have "parse_value fuel1 s = Some p" if "enough (length s - length (snd p)) fuel1" for fuel1
    proof -
      from that l null have "enough (Suc 0) fuel1"
        by (auto elim: enough_mono)
      then obtain f1 fuel2 where "fuel1 = f1 # fuel2"
        by (rule enough_Cons)
      then show ?thesis using null by simp
    qed
    then show ?thesis using l null by simp
  next
    case (num c r q)
    have l: "length (snd q) < length (c # r)" "length (c # r) \<le> length s"
      using num(8) parse_number_length apply blast
      using num(1) skip_ws_length [of s] by simp
    have "parse_value fuel1 s = Some p" if "enough (length s - length (snd p)) fuel1" for fuel1
    proof -
      from that l num have "enough (Suc 0) fuel1"
        by (auto elim: enough_mono)
      then obtain f1 fuel2 where "fuel1 = f1 # fuel2"
        by (rule enough_Cons)
      then show ?thesis using num by simp
    qed
    then show ?thesis using l num by simp
  qed
  have e_ok: "length (snd p) < length s
      \<and> (\<forall>fuel1. enough (length s - length (snd p)) fuel1
            \<longrightarrow> parse_elements fuel1 acc s = Some p)"
    if a: "parse_elements (f # fuel) acc s = Some p" for acc s p
    using a
  proof (cases rule: parse_elements_Cons_inv)
    case (more q r)
    have l: "length (snd q) < length s" "length r < length (snd q)" "length (snd p) < length r"
      using V more(1) apply blast
      using more(2) skip_ws_Cons apply blast
      using E more(3) by blast
    have "parse_elements fuel1 acc s = Some p"
      if "enough (length s - length (snd p)) fuel1" for fuel1
    proof -
      from that l have "enough (Suc (max (length s - length (snd q)) (length r - length (snd p)))) fuel1"
        by (auto elim: enough_mono)
      then obtain f1 fuel2 where f: "fuel1 = f1 # fuel2"
        and e: "enough (max (length s - length (snd q)) (length r - length (snd p))) fuel2"
        by (rule enough_Cons)
      have "parse_value fuel2 s = Some q"
        by (rule V' [OF more(1)], rule enough_mono [OF e]) simp
      moreover have "parse_elements fuel2 (acc @ [fst q]) r = Some p"
        by (rule E' [OF more(3)], rule enough_mono [OF e]) simp
      ultimately show ?thesis using more f by simp
    qed
    then show ?thesis using l by simp
  next
    case (last q r)
    have l: "length (snd q) < length s" "length r < length (snd q)"
      using V last(1) apply blast
      using last(2) skip_ws_Cons by blast
    have "parse_elements fuel1 acc s = Some p"
      if "enough (length s - length (snd p)) fuel1" for fuel1
    proof -
      from that l last have "enough (Suc (length s - length (snd q))) fuel1"
        by (auto elim: enough_mono)
      then obtain f1 fuel2 where f: "fuel1 = f1 # fuel2"
        and e: "enough (length s - length (snd q)) fuel2"
        by (rule enough_Cons)
      have "parse_value fuel2 s = Some q"
        using V' [OF last(1) e] .
      then show ?thesis using last f by simp
    qed
    then show ?thesis using l last by simp
  qed
  have m_ok: "length (snd p) < length s
      \<and> (\<forall>fuel1. enough (length s - length (snd p)) fuel1
            \<longrightarrow> parse_members fuel1 acc s = Some p)"
    if a: "parse_members (f # fuel) acc s = Some p" for acc s p
    using a
  proof (cases rule: parse_members_Cons_inv)
    case (more r k r1 q r2)
    have l: "length r < length s" "length (snd k) < length r" "length r1 < length (snd k)"
      "length (snd q) < length r1" "length r2 < length (snd q)" "length (snd p) < length r2"
      using more(1) skip_ws_Cons apply blast
      using more(2) string_chars_length apply blast
      using more(3) skip_ws_Cons apply blast
      using V more(4) apply blast
      using more(5) skip_ws_Cons apply blast
      using M more(6) by blast
    have "parse_members fuel1 acc s = Some p"
      if "enough (length s - length (snd p)) fuel1" for fuel1
    proof -
      from that l
      have "enough (Suc (max (length r1 - length (snd q)) (length r2 - length (snd p)))) fuel1"
        by (auto elim: enough_mono)
      then obtain f1 fuel2 where f: "fuel1 = f1 # fuel2"
        and e: "enough (max (length r1 - length (snd q)) (length r2 - length (snd p))) fuel2"
        by (rule enough_Cons)
      have "parse_value fuel2 r1 = Some q"
        by (rule V' [OF more(4)], rule enough_mono [OF e]) simp
      moreover have "parse_members fuel2 (set_property acc (fst k) (fst q)) r2 = Some p"
        by (rule M' [OF more(6)], rule enough_mono [OF e]) simp
      ultimately show ?thesis using more f by simp
    qed
    then show ?thesis using l by simp
  next
    case (last r k r1 q r2)
    have l: "length r < length s" "length (snd k) < length r" "length r1 < length (snd k)"
      "length (snd q) < length r1" "length r2 < length (snd q)"
      using last(1) skip_ws_Cons apply blast
      using last(2) string_chars_length apply blast
      using last(3) skip_ws_Cons apply blast
      using V last(4) apply blast
      using last(5) skip_ws_Cons by blast
    have "parse_members fuel1 acc s = Some p"
      if "enough (length s - length (snd p)) fuel1" for fuel1
    proof -
      from that l last have "enough (Suc (length r1 - length (snd q))) fuel1"
        by (auto elim: enough_mono)
      then obtain f1 fuel2 where f: "fuel1 = f1 # fuel2"
        and e: "enough (length r1 - length (snd q)) fuel2"
        by (rule enough_Cons)
      have "parse_value fuel2 r1 = Some q"
        using V' [OF last(4) e] .
      then show ?thesis using last f by simp
    qed
    then show ?thesis using l last by simp
  qed
  show ?case
    using v_ok e_ok m_ok by blast
qed

lemma JSON_parse_fuel:
  assumes "parse_value fuel t = Some p"
  shows "parse_value (0 # t) t = Some p"
proof -
  have "enough (length t - length (snd p)) (0 # t)"
    by (simp add: enough_def)
  then show ?thesis
    using fuel_adequate [of fuel] assms by blast
qed

lemma JSON_parse_any_fuel:
  assumes "parse_value fuel t = Some p"
  shows "JSON_parse t = (if skip_ws (snd p) = [] then Inr (fst p) else Inl SyntaxError)"
  using JSON_parse_fuel [OF assms] by (simp add: JSON_parse_def)

text \<open>
  No parser returns a \<open>Date\<close>, and no object that \<open>JSON.parse\<close> returns has one as a
  property.
\<close>

lemma set_property_no_Date:
  "no_Date_property kvs \<Longrightarrow> \<not> is_Date v \<Longrightarrow> no_Date_property (set_property kvs k v)"
  by (induction kvs) (auto simp: no_Date_property_def)

lemma parse_no_Date:
  "(\<forall>s p. parse_value fuel s = Some p \<longrightarrow> \<not> is_Date (fst p))
   \<and> (\<forall>acc s p. parse_elements fuel acc s = Some p \<longrightarrow> (\<exists>xs. fst p = JArray xs))
   \<and> (\<forall>acc s p. parse_members fuel acc s = Some p \<longrightarrow> no_Date_property acc \<longrightarrow>
        (\<exists>kvs. fst p = JObject kvs \<and> no_Date_property kvs))"
proof (induction fuel)
  case Nil
  show ?case by simp
next
  case (Cons f fuel)
  then have V: "\<And>s p. parse_value fuel s = Some p \<Longrightarrow> \<not> is_Date (fst p)"
    and E: "\<And>acc s p. parse_elements fuel acc s = Some p \<Longrightarrow> \<exists>xs. fst p = JArray xs"
    and M: "\<And>acc s p. parse_members fuel acc s = Some p \<Longrightarrow> no_Date_property acc \<Longrightarrow>
        \<exists>kvs. fst p = JObject kvs \<and> no_Date_property kvs"
    by blast+
  have v_ok: "\<not> is_Date (fst p)" if a: "parse_value (f # fuel) s = Some p" for s p
    using a
  proof (cases rule: parse_value_Cons_inv)
    case (obj r d r1)
    have "no_Date_property []"
      by (simp add: no_Date_property_def)
    then obtain kvs where "fst p = JObject kvs"
      using M [OF obj(4)] by blast
    then show ?thesis by simp
  next
    case (arr r d r1)
    then obtain xs where "fst p = JArray xs"
      using E [OF arr(4)] by blast
    then show ?thesis by simp
  qed simp_all
  have e_ok: "\<exists>xs. fst p = JArray xs" if a: "parse_elements (f # fuel) acc s = Some p" for acc s p
    using a
  proof (cases rule: parse_elements_Cons_inv)
    case (more q r)
    then show ?thesis using E by blast
  next
    case (last q r)
    then show ?thesis by simp
  qed
  have m_ok: "\<exists>kvs. fst p = JObject kvs \<and> no_Date_property kvs"
    if a: "parse_members (f # fuel) acc s = Some p" and acc: "no_Date_property acc"
    for acc s p
    using a
  proof (cases rule: parse_members_Cons_inv)
    case (more r k r1 q r2)
    have "no_Date_property (set_property acc (fst k) (fst q))"
      using acc V [OF more(4)] by (rule set_property_no_Date)
    then show ?thesis using M [OF more(6)] by blast
  next
    case (last r k r1 q r2)
    have "no_Date_property (set_property acc (fst k) (fst q))"
      using acc V [OF last(4)] by (rule set_property_no_Date)
    then show ?thesis using last(6) by simp
  qed
  show ?case
    using v_ok e_ok m_ok by blast
qed

lemma JSON_parse_no_Date:
  assumes "JSON_parse t = Inr (JObject kvs)"
  shows "no_Date_property kvs"
proof -
  from assms obtain p where p: "parse_value (0 # t) t = Some p" and kvs: "fst p = JObject kvs"
    by (auto simp: JSON_parse_def split: option.splits if_splits)
  from p show ?thesis
  proof (cases rule: parse_value_Cons_inv)
    case (obj0 r r1)
    then show ?thesis using kvs by (simp add: no_Date_property_def)
  next
    case (obj r d r1)
    have "no_Date_property []"
      by (simp add: no_Date_property_def)
    then obtain kvs1 where "fst p = JObject kvs1" "no_Date_property kvs1"
      using parse_no_Date [of t] obj(4) by blast
    then show ?thesis using kvs by simp
  next
    case (arr r d r1)
    then obtain xs where "fst p = JArray xs"
      using parse_no_Date [of t] by blast
    then show ?thesis using kvs by simp
  qed (use kvs in simp_all)
qed

subsection \<open>The metadata codec\<close>

text \<open>
  C1: the metadata read back by \<open>getProductInfo\<close> from the payload written by
  \<open>mintProduct\<close> should be the metadata that was written. It is not. Minting the product
  \<open>shoe\<close>, made at time \<open>0\<close>, submits as payload the hex of the text
  \<open>{"name":"Shoe","description":"Running shoe","dateManufactured":"1970-01-01T00:00:00.000Z"}\<close>;
  read from a ledger that holds this payload, the metadata of the product has the date as
  a string, where the metadata that was written has a \<open>Date\<close>. The optional fields,
  absent in \<open>shoe\<close>, are absent in both.
\<close>

theorem metadata_date_read_back_as_string:
  "mintProduct (example_ledger (Inr EmptyResponse)) example_chain (js ''PROD-001'') shoe []
   = (Inr (js ''0xbeef''),
      [GenerateTransaction (js ''0xa11ce'')
         \<lparr>function_name = js ''0x1::SupplyChain::product_manager::mint_product'',
          type_arguments = [],
          arguments = [js ''PROD-001'', js ''0x7b226e616d65223a2253686f65222c226465736372697074696f6e223a2252756e6e696e672073686f65222c22646174654d616e756661637475726564223a22313937302d30312d30315430303a30303a30302e3030305a227d'']\<rparr>,
       SignTransaction example_account
         \<lparr>sender = js ''0xa11ce'',
          payload =
            \<lparr>function_name = js ''0x1::SupplyChain::product_manager::mint_product'',
             type_arguments = [],
             arguments = [js ''PROD-001'', js ''0x7b226e616d65223a2253686f65222c226465736372697074696f6e223a2252756e6e696e672073686f65222c22646174654d616e756661637475726564223a22313937302d30312d30315430303a30303a30302e3030305a227d'']\<rparr>,
          sequence_number = 0\<rparr>,
       SubmitTransaction [1, 2, 3],
       WaitForTransaction (js ''0xbeef'')])
   \<and> getProductInfo
       (example_ledger (Inr (ProductResponse (js ''PROD-001'') (js ''0xa11ce'') (js ''0xa11ce'')
          (js ''0x7b226e616d65223a2253686f65222c226465736372697074696f6e223a2252756e6e696e672073686f65222c22646174654d616e756661637475726564223a22313937302d30312d30315430303a30303a30302e3030305a227d'') [])))
       example_chain (js ''PROD-001'') []
   = (Inr (Some \<lparr>info_id = Some (MoveString (js ''PROD-001'')),
                  manufacturer = Some (MoveString (js ''0xa11ce'')),
                  currentOwner = Some (MoveString (js ''0xa11ce'')),
                  metadata =
                    JObject [(js ''name'', JString (js ''Shoe'')),
                             (js ''description'', JString (js ''Running shoe'')),
                             (js ''dateManufactured'', JString (js ''1970-01-01T00:00:00.000Z''))],
                  history = Some (MoveVector [])\<rparr>),
      [View \<lparr>function_name = js ''0x1::SupplyChain::product_manager::get_product_info'',
             type_arguments = [], arguments = [js ''PROD-001'']\<rparr>])
   \<and> metadata_object shoe
     = JObject [(js ''name'', JString (js ''Shoe'')),
                (js ''description'', JString (js ''Running shoe'')),
                (js ''dateManufactured'', JDate (Date (Some 0)))]"
  by (simp add: codec_defs answer_defs mintProduct_def submit_and_wait_def getProductInfo_def
      getProductInfo_try_def get_product_info_request_def MODULE_ADDRESS_def MODULE_NAME_def
      RESOURCE_NAME_def MODULE_def MINT_PRODUCT_def GET_PRODUCT_INFO_def
      example_ledger_def example_chain_def example_account_def shoe_def)

text \<open>
  The same holds for every product and every payload: the metadata of a product holds a
  \<open>Date\<close>, and no value that \<open>JSON.parse\<close> returns does.
\<close>

lemma metadata_never_read_back: "JSON_parse t \<noteq> Inr (metadata_object m)"
proof
  assume "JSON_parse t = Inr (metadata_object m)"
  then have "no_Date_property
      ([(js ''name'', JString (name m)),
        (js ''description'', JString (description m)),
        (js ''dateManufactured'', JDate (dateManufactured m))]
       @ (case ipfsLink m of None \<Rightarrow> [] | Some l \<Rightarrow> [(js ''ipfsLink'', JString l)])
       @ (case additionalInfo m of
            None \<Rightarrow> []
          | Some kvs \<Rightarrow>
              [(js ''additionalInfo'', JObject (map (\<lambda>kv. (fst kv, JString (snd kv))) kvs))]))"
    unfolding metadata_object_def by (rule JSON_parse_no_Date)
  then show False
    by (simp add: no_Date_property_def)
qed

subsection \<open>Minting and transferring\<close>

text \<open>
  C9: a service constructed without a private key has no company account, and both
  \<open>mintProduct\<close> and \<open>transferProduct\<close> then fail with the error
  \<open>Company account not initialized. Provide a private key in the constructor.\<close> The list
  of events is unchanged: no transaction was generated, signed or submitted.
\<close>

theorem no_private_key_no_transaction:
  assumes "new_SupplyChain w url None = Inr this"
  shows "mintProduct w this productId m tr =
           (Inl (Error (js ''Company account not initialized. Provide a private key in the constructor.'')), tr)
         \<and> transferProduct w this productId newOwnerAddress tr =
           (Inl (Error (js ''Company account not initialized. Provide a private key in the constructor.'')), tr)"
  using assms
  by (auto simp: new_SupplyChain_def mintProduct_def transferProduct_def not_initialized_def)

theorem no_private_key_no_transaction_witness:
  "new_SupplyChain (example_ledger (Inr EmptyResponse)) (js ''https://node.example'') None
     = Inr \<lparr>client = AptosClient (js ''https://node.example''), companyAccount = None\<rparr>
   \<and> mintProduct (example_ledger (Inr EmptyResponse))
        \<lparr>client = AptosClient (js ''https://node.example''), companyAccount = None\<rparr>
        (js ''PROD-001'') shoe [] =
       (Inl (Error (js ''Company account not initialized. Provide a private key in the constructor.'')), [])
   \<and> transferProduct (example_ledger (Inr EmptyResponse))
        \<lparr>client = AptosClient (js ''https://node.example''), companyAccount = None\<rparr>
        (js ''PROD-001'') (js ''0xb0b'') [] =
       (Inl (Error (js ''Company account not initialized. Provide a private key in the constructor.'')), [])"
proof -
  have h: "new_SupplyChain (example_ledger (Inr EmptyResponse)) (js ''https://node.example'') None
     = Inr \<lparr>client = AptosClient (js ''https://node.example''), companyAccount = None\<rparr>"
    by (simp add: new_SupplyChain_def)
  show ?thesis
    using h no_private_key_no_transaction [OF h, of "js ''PROD-001''" shoe "[]" "js ''0xb0b''"]
    by simp
qed

text \<open>
  C3, as the spec states it: a transfer to the signer's own address is rejected with
  \<open>InvalidTransfer\<close> and nothing is submitted. The service does not compare the two
  addresses: on the example ledger the transfer of \<open>PROD-001\<close> from \<open>0xa11ce\<close> to
  \<open>0xa11ce\<close> is generated, signed, submitted and waited for, and returns the hash.
\<close>

theorem self_transfer_counterexample:
  "accountAddress example_account = js ''0xa11ce''
   \<and> transferProduct (example_ledger (Inr EmptyResponse)) example_chain (js ''PROD-001'')
        (js ''0xa11ce'') []
     = (Inr (js ''0xbeef''),
        [GenerateTransaction (js ''0xa11ce'')
           \<lparr>function_name = TRANSFER_PRODUCT, type_arguments = [],
            arguments = [js ''0xa11ce'', js ''PROD-001'']\<rparr>,
         SignTransaction example_account
           \<lparr>sender = js ''0xa11ce'',
            payload = \<lparr>function_name = TRANSFER_PRODUCT, type_arguments = [],
                       arguments = [js ''0xa11ce'', js ''PROD-001'']\<rparr>,
            sequence_number = 0\<rparr>,
         SubmitTransaction [1, 2, 3],
         WaitForTransaction (js ''0xbeef'')])"
  by (simp add: transferProduct_def submit_and_wait_def example_chain_def example_ledger_def
      example_account_def)

text \<open>
  C3, as the service does it: a transfer whose new owner is the address of the company
  account is handled as any other transfer. When the four calls of the client succeed, it
  is submitted and \<open>transferProduct\<close> returns the hash of the transaction.
\<close>

theorem self_transfer_is_submitted:
  assumes "companyAccount this = Some account"
    and "generateTransaction w (client this) tr (accountAddress account)
           \<lparr>function_name = TRANSFER_PRODUCT, type_arguments = [],
            arguments = [accountAddress account, productId]\<rparr> = Inr txnRequest"
    and "signTransaction w (client this)
           (tr @ [GenerateTransaction (accountAddress account)
                    \<lparr>function_name = TRANSFER_PRODUCT, type_arguments = [],
                     arguments = [accountAddress account, productId]\<rparr>])
           account txnRequest = Inr signedTxn"
    and "submitTransaction w (client this)
           (tr @ [GenerateTransaction (accountAddress account)
                    \<lparr>function_name = TRANSFER_PRODUCT, type_arguments = [],
                     arguments = [accountAddress account, productId]\<rparr>,
                  SignTransaction account txnRequest])
           signedTxn = Inr txnResult"
    and "waitForTransaction w (client this)
           (tr @ [GenerateTransaction (accountAddress account)
                    \<lparr>function_name = TRANSFER_PRODUCT, type_arguments = [],
                     arguments = [accountAddress account, productId]\<rparr>,
                  SignTransaction account txnRequest,
                  SubmitTransaction signedTxn])
           (hash txnResult) = None"
  shows "transferProduct w this productId (accountAddress account) tr =
           (Inr (hash txnResult),
            tr @ [GenerateTransaction (accountAddress account)
                    \<lparr>function_name = TRANSFER_PRODUCT, type_arguments = [],
                     arguments = [accountAddress account, productId]\<rparr>,
                  SignTransaction account txnRequest,
                  SubmitTransaction signedTxn,
                  WaitForTransaction (hash txnResult)])"
  using assms by (simp add: transferProduct_def submit_and_wait_def)

theorem self_transfer_is_submitted_witness:
  "companyAccount example_chain = Some example_account
   \<and> transferProduct (example_ledger (Inr EmptyResponse)) example_chain (js ''PROD-001'')
        (accountAddress example_account) []
     = (Inr (js ''0xbeef''),
        [GenerateTransaction (accountAddress example_account)
           \<lparr>function_name = TRANSFER_PRODUCT, type_arguments = [],
            arguments = [accountAddress example_account, js ''PROD-001'']\<rparr>,
         SignTransaction example_account
           \<lparr>sender = accountAddress example_account,
            payload = \<lparr>function_name = TRANSFER_PRODUCT, type_arguments = [],
                       arguments = [accountAddress example_account, js ''PROD-001'']\<rparr>,
            sequence_number = 0\<rparr>,
         SubmitTransaction [1, 2, 3],
         WaitForTransaction (js ''0xbeef'')])"
proof -
  have a: "companyAccount example_chain = Some example_account"
    by (simp add: example_chain_def)
  have g: "generateTransaction (example_ledger (Inr EmptyResponse)) (client example_chain) []
             (accountAddress example_account)
             \<lparr>function_name = TRANSFER_PRODUCT, type_arguments = [],
              arguments = [accountAddress example_account, js ''PROD-001'']\<rparr>
           = Inr \<lparr>sender = accountAddress example_account,
                  payload = \<lparr>function_name = TRANSFER_PRODUCT, type_arguments = [],
                       arguments = [accountAddress example_account, js ''PROD-001'']\<rparr>,
                  sequence_number = 0\<rparr>"
    by (simp add: example_ledger_def)
  have s: "signTransaction (example_ledger (Inr EmptyResponse)) (client example_chain) tr1
             example_account txn = Inr [1, 2, 3]" for tr1 txn
    by (simp add: example_ledger_def example_account_def)
  have u: "submitTransaction (example_ledger (Inr EmptyResponse)) (client example_chain) tr1
             signed = Inr \<lparr>hash = js ''0xbeef''\<rparr>" for tr1 signed
    by (simp add: example_ledger_def)
  have t: "waitForTransaction (example_ledger (Inr EmptyResponse)) (client example_chain) tr1
             (hash \<lparr>hash = js ''0xbeef''\<rparr>) = None" for tr1
    by (simp add: example_ledger_def)
  show ?thesis
    using a self_transfer_is_submitted [OF a g s u t]
    by simp
qed

subsection \<open>Queries\<close>

text \<open>
  \<open>getProductInfo\<close> never throws: it returns what its \<open>try\<close> block returns, or
  \<open>null\<close> after an error, which it writes to the console.
\<close>

lemma getProductInfo_result:
  "getProductInfo w this productId tr =
     (Inr (case getProductInfo_try w this productId tr of Inl e \<Rightarrow> None | Inr r \<Rightarrow> r),
      tr @ View (get_product_info_request productId)
         # (case getProductInfo_try w this productId tr of
              Inl e \<Rightarrow> [ConsoleError (js ''Error fetching product info:'') e]
            | Inr r \<Rightarrow> []))"
  by (simp add: getProductInfo_def split: sum.splits)

text \<open>
  C4, as the spec states it: a payload that cannot be decoded makes the query fail with
  \<open>MalformedMetadata\<close>, never with the result of a missing product. On the example ledger
  a product whose payload is the hex of \<open>{\<close> and a product that is not there both give
  \<open>null\<close>; the first also writes the \<open>SyntaxError\<close> to the console.
\<close>

theorem malformed_metadata_counterexample:
  "getProductInfo
     (example_ledger (Inr (ProductResponse (js ''PROD-001'') (js ''0xa11ce'') (js ''0xa11ce'')
                             (js ''0x7b'') [])))
     example_chain (js ''PROD-001'') []
   = (Inr None,
      [View (get_product_info_request (js ''PROD-001'')),
       ConsoleError (js ''Error fetching product info:'') SyntaxError])
   \<and> getProductInfo (example_ledger (Inr EmptyResponse)) example_chain (js ''PROD-001'') []
   = (Inr None, [View (get_product_info_request (js ''PROD-001''))])"
  by (simp add: getProductInfo_def getProductInfo_try_def example_ledger_def codec_defs answer_defs)

text \<open>
  C4, as the service does it: when the ledger returns a product and \<open>JSON.parse\<close>
  throws on its decoded payload, \<open>getProductInfo\<close> writes the error to the console and
  returns \<open>null\<close>, the value it returns for a product that is not there.
\<close>

theorem malformed_metadata_is_null:
  assumes "view w (client this) tr (get_product_info_request productId)
             = Inr (ProductResponse i m c metadataHex historyArray)"
    and "JSON_parse (metadataJson metadataHex) = Inl e"
  shows "getProductInfo w this productId tr =
           (Inr None,
            tr @ [View (get_product_info_request productId),
                  ConsoleError (js ''Error fetching product info:'') e])"
  using assms by (simp add: getProductInfo_def getProductInfo_try_def answer_defs)

theorem malformed_metadata_is_null_witness:
  "view (example_ledger (Inr (ProductResponse (js ''PROD-001'') (js ''0xa11ce'') (js ''0xa11ce'')
                             (js ''0x7b'') [])))
     (client example_chain) [] (get_product_info_request (js ''PROD-001''))
   = Inr (ProductResponse (js ''PROD-001'') (js ''0xa11ce'') (js ''0xa11ce'') (js ''0x7b'') [])
   \<and> JSON_parse (metadataJson (js ''0x7b'')) = Inl SyntaxError
   \<and> getProductInfo
     (example_ledger (Inr (ProductResponse (js ''PROD-001'') (js ''0xa11ce'') (js ''0xa11ce'')
                             (js ''0x7b'') [])))
     example_chain (js ''PROD-001'') []
   = (Inr None,
      [View (get_product_info_request (js ''PROD-001'')),
       ConsoleError (js ''Error fetching product info:'') SyntaxError])"
proof -
  have v: "view (example_ledger (Inr (ProductResponse (js ''PROD-001'') (js ''0xa11ce'')
                             (js ''0xa11ce'') (js ''0x7b'') [])))
     (client example_chain) [] (get_product_info_request (js ''PROD-001''))
   = Inr (ProductResponse (js ''PROD-001'') (js ''0xa11ce'') (js ''0xa11ce'') (js ''0x7b'') [])"
    by (simp add: example_ledger_def)
  have p: "JSON_parse (metadataJson (js ''0x7b'')) = Inl SyntaxError"
    by (simp add: codec_defs)
  show ?thesis
    using v p malformed_metadata_is_null [OF v p]
    by simp
qed

text \<open>
  C7, as the spec states it: \<open>NotFound\<close> is the only outcome that \<open>exists\<close> turns into
  \<open>false\<close>, every other error of the query is surfaced. On a ledger whose \<open>view\<close> call
  throws a network error, \<open>checkOnChainExist\<close> returns \<open>false\<close> and throws nothing.
\<close>

theorem swallowed_error_counterexample:
  "checkOnChainExist (example_ledger (Inl (ApiError (js ''Network Error'')))) example_chain
     (js ''PROD-001'') []
   = (Inr False,
      [View (get_product_info_request (js ''PROD-001'')),
       ConsoleError (js ''Error fetching product info:'') (ApiError (js ''Network Error''))])"
  by (simp add: checkOnChainExist_def getProductInfo_def getProductInfo_try_def
      example_ledger_def)

text \<open>
  C7, as the service does it: \<open>checkOnChainExist\<close> never throws and is \<open>true\<close> exactly
  when \<open>getProductInfo\<close> returns a product. The query returns \<open>null\<close>, hence \<open>false\<close>, for
  a product that is not there (no answer, or an empty one) and as well for every error:
  of the ledger read, of reading the metadata of the answer, of parsing it. The error is
  written to the console. The query returns a product, hence \<open>true\<close>, when the answer is
  not empty and its metadata can be parsed.
\<close>

theorem exists_iff_product_returned:
  "(\<exists>r tr1. getProductInfo w this productId tr = (Inr r, tr1)
       \<and> checkOnChainExist w this productId tr = (Inr (r \<noteq> None), tr1))
   \<and> (view w (client this) tr (get_product_info_request productId) = Inl e \<longrightarrow>
        getProductInfo w this productId tr = (Inr None, tr @ [View (get_product_info_request productId), ConsoleError (js ''Error fetching product info:'') e])
        \<and> checkOnChainExist w this productId tr = (Inr False, tr @ [View (get_product_info_request productId), ConsoleError (js ''Error fetching product info:'') e]))
   \<and> (view w (client this) tr (get_product_info_request productId) = Inr NoResponse \<or> view w (client this) tr (get_product_info_request productId) = Inr (Response []) \<longrightarrow>
        getProductInfo w this productId tr = (Inr None, tr @ [View (get_product_info_request productId)])
        \<and> checkOnChainExist w this productId tr = (Inr False, tr @ [View (get_product_info_request productId)]))
   \<and> (view w (client this) tr (get_product_info_request productId) = Inr (Response xs) \<and> xs \<noteq> [] \<and> call_toString (element xs 3) = Inl e \<longrightarrow>
        getProductInfo w this productId tr = (Inr None, tr @ [View (get_product_info_request productId), ConsoleError (js ''Error fetching product info:'') e])
        \<and> checkOnChainExist w this productId tr = (Inr False, tr @ [View (get_product_info_request productId), ConsoleError (js ''Error fetching product info:'') e]))
   \<and> (view w (client this) tr (get_product_info_request productId) = Inr (Response xs) \<and> xs \<noteq> [] \<and> call_toString (element xs 3) = Inr s
        \<and> JSON_parse (metadataJson s) = Inl e \<longrightarrow>
        getProductInfo w this productId tr = (Inr None, tr @ [View (get_product_info_request productId), ConsoleError (js ''Error fetching product info:'') e])
        \<and> checkOnChainExist w this productId tr = (Inr False, tr @ [View (get_product_info_request productId), ConsoleError (js ''Error fetching product info:'') e]))
   \<and> (view w (client this) tr (get_product_info_request productId) = Inr (Response xs) \<and> xs \<noteq> [] \<and> call_toString (element xs 3) = Inr s
        \<and> JSON_parse (metadataJson s) = Inr md \<longrightarrow>
        getProductInfo w this productId tr =
          (Inr (Some \<lparr>info_id = element xs 0, manufacturer = element xs 1,
                       currentOwner = element xs 2, metadata = md, history = element xs 4\<rparr>),
           tr @ [View (get_product_info_request productId)])
        \<and> checkOnChainExist w this productId tr = (Inr True, tr @ [View (get_product_info_request productId)]))"
proof (intro conjI impI)
  show "\<exists>r tr1. getProductInfo w this productId tr = (Inr r, tr1)
       \<and> checkOnChainExist w this productId tr = (Inr (r \<noteq> None), tr1)"
    by (simp add: checkOnChainExist_def getProductInfo_def split: sum.splits)
qed (auto simp: checkOnChainExist_def getProductInfo_def getProductInfo_try_def)

theorem exists_iff_product_returned_witness:
  "view (example_ledger (Inl (ApiError (js ''Network Error'')))) (client example_chain) []
     (get_product_info_request (js ''PROD-001'')) = Inl (ApiError (js ''Network Error''))
   \<and> checkOnChainExist (example_ledger (Inl (ApiError (js ''Network Error'')))) example_chain
       (js ''PROD-001'') []
     = (Inr False,
        [View (get_product_info_request (js ''PROD-001'')),
         ConsoleError (js ''Error fetching product info:'') (ApiError (js ''Network Error''))])
   \<and> (view (example_ledger (Inr (Response []))) (client example_chain) []
         (get_product_info_request (js ''PROD-001'')) = Inr NoResponse
       \<or> view (example_ledger (Inr (Response []))) (client example_chain) []
         (get_product_info_request (js ''PROD-001'')) = Inr (Response []))
   \<and> checkOnChainExist (example_ledger (Inr (Response []))) example_chain (js ''PROD-001'') []
     = (Inr False, [View (get_product_info_request (js ''PROD-001''))])
   \<and> (view (example_ledger (Inr NoResponse)) (client example_chain) []
         (get_product_info_request (js ''PROD-001'')) = Inr NoResponse
       \<or> view (example_ledger (Inr NoResponse)) (client example_chain) []
         (get_product_info_request (js ''PROD-001'')) = Inr (Response []))
   \<and> checkOnChainExist (example_ledger (Inr NoResponse)) example_chain (js ''PROD-001'') []
     = (Inr False, [View (get_product_info_request (js ''PROD-001''))])
   \<and> call_toString (element [MoveString (js ''PROD-001'')] 3) = Inl TypeError
   \<and> checkOnChainExist (example_ledger (Inr (Response [MoveString (js ''PROD-001'')])))
       example_chain (js ''PROD-001'') []
     = (Inr False,
        [View (get_product_info_request (js ''PROD-001'')),
         ConsoleError (js ''Error fetching product info:'') TypeError])
   \<and> call_toString
       (element [MoveString (js ''PROD-001''), MoveString (js ''0xa11ce''),
                 MoveString (js ''0xa11ce''), MoveString (js ''0x7b''), MoveVector []] 3)
     = Inr (js ''0x7b'')
   \<and> JSON_parse (metadataJson (js ''0x7b'')) = Inl SyntaxError
   \<and> checkOnChainExist
       (example_ledger (Inr (Response
          [MoveString (js ''PROD-001''), MoveString (js ''0xa11ce''),
           MoveString (js ''0xa11ce''), MoveString (js ''0x7b''), MoveVector []])))
       example_chain (js ''PROD-001'') []
     = (Inr False,
        [View (get_product_info_request (js ''PROD-001'')),
         ConsoleError (js ''Error fetching product info:'') SyntaxError])
   \<and> call_toString
       (element [MoveString (js ''PROD-001''), MoveString (js ''0xa11ce''),
                 MoveString (js ''0xa11ce''), MoveString (js ''0x7b7d''), MoveVector []] 3)
     = Inr (js ''0x7b7d'')
   \<and> JSON_parse (metadataJson (js ''0x7b7d'')) = Inr (JObject [])
   \<and> checkOnChainExist
       (example_ledger (Inr (Response
          [MoveString (js ''PROD-001''), MoveString (js ''0xa11ce''),
           MoveString (js ''0xa11ce''), MoveString (js ''0x7b7d''), MoveVector []])))
       example_chain (js ''PROD-001'') []
     = (Inr True, [View (get_product_info_request (js ''PROD-001''))])"
proof -
  have v: "view (example_ledger answer) (client example_chain) []
      (get_product_info_request (js ''PROD-001'')) = answer" for answer
    by (simp add: example_ledger_def)
  have t1: "call_toString (element [MoveString (js ''PROD-001'')] 3) = Inl TypeError"
    by (simp add: answer_defs)
  have t2: "call_toString
       (element [MoveString (js ''PROD-001''), MoveString (js ''0xa11ce''),
                 MoveString (js ''0xa11ce''), MoveString (js ''0x7b''), MoveVector []] 3)
     = Inr (js ''0x7b'')"
    by (simp add: answer_defs)
  have p2: "JSON_parse (metadataJson (js ''0x7b'')) = Inl SyntaxError"
    by (simp add: codec_defs)
  have t3: "call_toString
       (element [MoveString (js ''PROD-001''), MoveString (js ''0xa11ce''),
                 MoveString (js ''0xa11ce''), MoveString (js ''0x7b7d''), MoveVector []] 3)
     = Inr (js ''0x7b7d'')"
    by (simp add: answer_defs)
  have p3: "JSON_parse (metadataJson (js ''0x7b7d'')) = Inr (JObject [])"
    by (simp add: codec_defs)
  note inst = exists_iff_product_returned [where this = example_chain
      and productId = "js ''PROD-001''" and tr = "[]"]
  show ?thesis
    using t1 t2 p2 t3 p3
      inst [where w = "example_ledger (Inl (ApiError (js ''Network Error'')))"
        and e = "ApiError (js ''Network Error'')"]
      inst [where w = "example_ledger (Inr (Response []))"]
      inst [where w = "example_ledger (Inr NoResponse)"]
      inst [where w = "example_ledger (Inr (Response [MoveString (js ''PROD-001'')]))"
        and xs = "[MoveString (js ''PROD-001'')]" and e = TypeError]
      inst [where w = "example_ledger (Inr (Response
          [MoveString (js ''PROD-001''), MoveString (js ''0xa11ce''),
           MoveString (js ''0xa11ce''), MoveString (js ''0x7b''), MoveVector []]))"
        and xs = "[MoveString (js ''PROD-001''), MoveString (js ''0xa11ce''),
           MoveString (js ''0xa11ce''), MoveString (js ''0x7b''), MoveVector []]"
        and s = "js ''0x7b''" and e = SyntaxError]
      inst [where w = "example_ledger (Inr (Response
          [MoveString (js ''PROD-001''), MoveString (js ''0xa11ce''),
           MoveString (js ''0xa11ce''), MoveString (js ''0x7b7d''), MoveVector []]))"
        and xs = "[MoveString (js ''PROD-001''), MoveString (js ''0xa11ce''),
           MoveString (js ''0xa11ce''), MoveString (js ''0x7b7d''), MoveVector []]"
        and s = "js ''0x7b7d''" and md = "JObject []"]
    unfolding v
    by simp
qed

subsection \<open>Verification\<close>

text \<open>
  C2, as the spec states it: for every product \<open>verifyProduct\<close> returns a record. The
  service reads the length of the history without a check: when the answer of the ledger
  holds four values, the query returns a product whose history is \<open>undefined\<close>, and
  \<open>verifyProduct\<close> throws a \<open>TypeError\<close>.
\<close>

theorem missing_history_counterexample:
  "getProductInfo
     (example_ledger (Inr (Response
        [MoveString (js ''PROD-001''), MoveString (js ''0xa11ce''),
         MoveString (js ''0xa11ce''), MoveString (js ''0x7b7d'')])))
     example_chain (js ''PROD-001'') []
   = (Inr (Some \<lparr>info_id = Some (MoveString (js ''PROD-001'')),
                  manufacturer = Some (MoveString (js ''0xa11ce'')),
                  currentOwner = Some (MoveString (js ''0xa11ce'')),
                  metadata = JObject [], history = None\<rparr>),
      [View (get_product_info_request (js ''PROD-001''))])
   \<and> verifyProduct
     (example_ledger (Inr (Response
        [MoveString (js ''PROD-001''), MoveString (js ''0xa11ce''),
         MoveString (js ''0xa11ce''), MoveString (js ''0x7b7d'')])))
     example_chain (js ''PROD-001'') (js ''0xa11ce'') []
   = (Inl TypeError, [View (get_product_info_request (js ''PROD-001''))])"
  by (simp add: verifyProduct_def getProductInfo_def getProductInfo_try_def example_ledger_def
      codec_defs answer_defs)

text \<open>
  C2, as the service does it. When the query returns a product whose history has a
  length (it is neither \<open>undefined\<close> nor \<open>null\<close>), \<open>verifyProduct\<close> returns a record in
  which \<open>exists\<close> is true, \<open>isAuthentic\<close> is the equality of the product's manufacturer
  with the expected one, and \<open>transferCount\<close> is the length of the product's history, the
  number of its entries when it is an array. When the query returns no product, the
  record is \<open>{exists: false, isAuthentic: false}\<close>, the three optional fields absent, and
  no error is raised: so it is when the ledger read fails, when the ledger gives no answer
  or an empty one, and when the metadata of the answer cannot be read or parsed.
\<close>

theorem verifyProduct_judgment:
  "(fst (getProductInfo w this productId tr) = Inr None \<longrightarrow>
      verifyProduct w this productId expectedManufacturer tr =
        (Inr \<lparr>exists = False, isAuthentic = False, manufacturer = None,
                 currentOwner = None, transferCount = None\<rparr>, snd (getProductInfo w this productId tr)))
   \<and> (fst (getProductInfo w this productId tr) = Inr (Some product)
       \<and> get_length (history product) = Inr n \<longrightarrow>
      verifyProduct w this productId expectedManufacturer tr =
        (Inr \<lparr>exists = True,
              isAuthentic =
                (ProductInfo.manufacturer product = Some (MoveString expectedManufacturer)),
              manufacturer = Some (ProductInfo.manufacturer product),
              currentOwner = Some (ProductInfo.currentOwner product),
              transferCount = Some n\<rparr>,
         snd (getProductInfo w this productId tr)))
   \<and> get_length (Some (MoveVector entries)) = Inr (Length (length entries))
   \<and> (view w (client this) tr (get_product_info_request productId) = Inl e \<longrightarrow>
        verifyProduct w this productId expectedManufacturer tr =
          (Inr \<lparr>exists = False, isAuthentic = False, manufacturer = None,
                 currentOwner = None, transferCount = None\<rparr>, tr @ [View (get_product_info_request productId), ConsoleError (js ''Error fetching product info:'') e]))
   \<and> (view w (client this) tr (get_product_info_request productId) = Inr NoResponse \<or> view w (client this) tr (get_product_info_request productId) = Inr (Response []) \<longrightarrow>
        verifyProduct w this productId expectedManufacturer tr =
          (Inr \<lparr>exists = False, isAuthentic = False, manufacturer = None,
                 currentOwner = None, transferCount = None\<rparr>, tr @ [View (get_product_info_request productId)]))
   \<and> (view w (client this) tr (get_product_info_request productId) = Inr (Response xs) \<and> xs \<noteq> [] \<and> call_toString (element xs 3) = Inl e \<longrightarrow>
        verifyProduct w this productId expectedManufacturer tr =
          (Inr \<lparr>exists = False, isAuthentic = False, manufacturer = None,
                 currentOwner = None, transferCount = None\<rparr>, tr @ [View (get_product_info_request productId), ConsoleError (js ''Error fetching product info:'') e]))
   \<and> (view w (client this) tr (get_product_info_request productId) = Inr (Response xs) \<and> xs \<noteq> [] \<and> call_toString (element xs 3) = Inr s
        \<and> JSON_parse (metadataJson s) = Inl e \<longrightarrow>
        verifyProduct w this productId expectedManufacturer tr =
          (Inr \<lparr>exists = False, isAuthentic = False, manufacturer = None,
                 currentOwner = None, transferCount = None\<rparr>, tr @ [View (get_product_info_request productId), ConsoleError (js ''Error fetching product info:'') e]))
   \<and> (view w (client this) tr (get_product_info_request productId) = Inr (Response xs) \<and> xs \<noteq> [] \<and> call_toString (element xs 3) = Inr s
        \<and> JSON_parse (metadataJson s) = Inr md \<and> get_length (element xs 4) = Inr n \<longrightarrow>
        verifyProduct w this productId expectedManufacturer tr =
          (Inr \<lparr>exists = True,
                isAuthentic = (element xs 1 = Some (MoveString expectedManufacturer)),
                manufacturer = Some (element xs 1),
                currentOwner = Some (element xs 2),
                transferCount = Some n\<rparr>,
           tr @ [View (get_product_info_request productId)]))"
proof (intro conjI impI)
  show "verifyProduct w this productId expectedManufacturer tr =
        (Inr \<lparr>exists = False, isAuthentic = False, manufacturer = None,
                 currentOwner = None, transferCount = None\<rparr>, snd (getProductInfo w this productId tr))"
    if "fst (getProductInfo w this productId tr) = Inr None"
    using that by (cases "getProductInfo w this productId tr") (simp add: verifyProduct_def)
  show "verifyProduct w this productId expectedManufacturer tr =
        (Inr \<lparr>exists = True,
              isAuthentic =
                (ProductInfo.manufacturer product = Some (MoveString expectedManufacturer)),
              manufacturer = Some (ProductInfo.manufacturer product),
              currentOwner = Some (ProductInfo.currentOwner product),
              transferCount = Some n\<rparr>,
         snd (getProductInfo w this productId tr))"
    if "fst (getProductInfo w this productId tr) = Inr (Some product)
       \<and> get_length (history product) = Inr n"
    using that by (cases "getProductInfo w this productId tr") (simp add: verifyProduct_def)
  show "get_length (Some (MoveVector entries)) = Inr (Length (length entries))"
    by simp
qed (auto simp: verifyProduct_def getProductInfo_def getProductInfo_try_def)

theorem verifyProduct_judgment_witness:
  "call_toString
       (element [MoveString (js ''PROD-001''), MoveString (js ''0xa11ce''),
                 MoveString (js ''0xb0b''), MoveString (js ''0x7b7d''),
                 MoveVector [MoveString (js ''0xb0b'')]] 3)
     = Inr (js ''0x7b7d'')
   \<and> JSON_parse (metadataJson (js ''0x7b7d'')) = Inr (JObject [])
   \<and> get_length
       (element [MoveString (js ''PROD-001''), MoveString (js ''0xa11ce''),
                 MoveString (js ''0xb0b''), MoveString (js ''0x7b7d''),
                 MoveVector [MoveString (js ''0xb0b'')]] 4)
     = Inr (Length 1)
   \<and> verifyProduct
       (example_ledger (Inr (Response
          [MoveString (js ''PROD-001''), MoveString (js ''0xa11ce''),
           MoveString (js ''0xb0b''), MoveString (js ''0x7b7d''),
           MoveVector [MoveString (js ''0xb0b'')]])))
       example_chain (js ''PROD-001'') (js ''0xa11ce'') []
     = (Inr \<lparr>exists = True, isAuthentic = True,
             manufacturer = Some (Some (MoveString (js ''0xa11ce''))),
             currentOwner = Some (Some (MoveString (js ''0xb0b''))),
             transferCount = Some (Length 1)\<rparr>,
        [View (get_product_info_request (js ''PROD-001''))])
   \<and> verifyProduct
       (example_ledger (Inr (Response
          [MoveString (js ''PROD-001''), MoveString (js ''0xa11ce''),
           MoveString (js ''0xb0b''), MoveString (js ''0x7b7d''),
           MoveVector [MoveString (js ''0xb0b'')]])))
       example_chain (js ''PROD-001'') (js ''0xc0ffee'') []
     = (Inr \<lparr>exists = True, isAuthentic = False,
             manufacturer = Some (Some (MoveString (js ''0xa11ce''))),
             currentOwner = Some (Some (MoveString (js ''0xb0b''))),
             transferCount = Some (Length 1)\<rparr>,
        [View (get_product_info_request (js ''PROD-001''))])
   \<and> verifyProduct (example_ledger (Inl (ApiError (js ''Network Error'')))) example_chain
       (js ''PROD-001'') (js ''0xa11ce'') []
     = (Inr \<lparr>exists = False, isAuthentic = False, manufacturer = None,
                 currentOwner = None, transferCount = None\<rparr>,
        [View (get_product_info_request (js ''PROD-001'')),
         ConsoleError (js ''Error fetching product info:'') (ApiError (js ''Network Error''))])
   \<and> verifyProduct (example_ledger (Inr (Response []))) example_chain
       (js ''PROD-001'') (js ''0xa11ce'') []
     = (Inr \<lparr>exists = False, isAuthentic = False, manufacturer = None,
                 currentOwner = None, transferCount = None\<rparr>, [View (get_product_info_request (js ''PROD-001''))])
   \<and> verifyProduct (example_ledger (Inr NoResponse)) example_chain
       (js ''PROD-001'') (js ''0xa11ce'') []
     = (Inr \<lparr>exists = False, isAuthentic = False, manufacturer = None,
                 currentOwner = None, transferCount = None\<rparr>, [View (get_product_info_request (js ''PROD-001''))])
   \<and> call_toString (element [MoveString (js ''PROD-001'')] 3) = Inl TypeError
   \<and> verifyProduct (example_ledger (Inr (Response [MoveString (js ''PROD-001'')])))
       example_chain (js ''PROD-001'') (js ''0xa11ce'') []
     = (Inr \<lparr>exists = False, isAuthentic = False, manufacturer = None,
                 currentOwner = None, transferCount = None\<rparr>,
        [View (get_product_info_request (js ''PROD-001'')),
         ConsoleError (js ''Error fetching product info:'') TypeError])
   \<and> call_toString
       (element [MoveString (js ''PROD-001''), MoveString (js ''0xa11ce''),
                 MoveString (js ''0xa11ce''), MoveString (js ''0x7b''), MoveVector []] 3)
     = Inr (js ''0x7b'')
   \<and> JSON_parse (metadataJson (js ''0x7b'')) = Inl SyntaxError
   \<and> verifyProduct
       (example_ledger (Inr (Response
          [MoveString (js ''PROD-001''), MoveString (js ''0xa11ce''),
           MoveString (js ''0xa11ce''), MoveString (js ''0x7b''), MoveVector []])))
       example_chain (js ''PROD-001'') (js ''0xa11ce'') []
     = (Inr \<lparr>exists = False, isAuthentic = False, manufacturer = None,
                 currentOwner = None, transferCount = None\<rparr>,
        [View (get_product_info_request (js ''PROD-001'')),
         ConsoleError (js ''Error fetching product info:'') SyntaxError])"
proof -
  have v: "view (example_ledger answer) (client example_chain) []
      (get_product_info_request (js ''PROD-001'')) = answer" for answer
    by (simp add: example_ledger_def)
  have t0: "call_toString
       (element [MoveString (js ''PROD-001''), MoveString (js ''0xa11ce''),
                 MoveString (js ''0xb0b''), MoveString (js ''0x7b7d''),
                 MoveVector [MoveString (js ''0xb0b'')]] 3)
     = Inr (js ''0x7b7d'')"
    by (simp add: answer_defs)
  have p0: "JSON_parse (metadataJson (js ''0x7b7d'')) = Inr (JObject [])"
    by (simp add: codec_defs)
  have l0: "get_length
       (element [MoveString (js ''PROD-001''), MoveString (js ''0xa11ce''),
                 MoveString (js ''0xb0b''), MoveString (js ''0x7b7d''),
                 MoveVector [MoveString (js ''0xb0b'')]] 4)
     = Inr (Length 1)"
    by (simp add: answer_defs)
  have e0: "element [MoveString (js ''PROD-001''), MoveString (js ''0xa11ce''),
                 MoveString (js ''0xb0b''), MoveString (js ''0x7b7d''),
                 MoveVector [MoveString (js ''0xb0b'')]] 1 = Some (MoveString (js ''0xa11ce''))"
    "element [MoveString (js ''PROD-001''), MoveString (js ''0xa11ce''),
                 MoveString (js ''0xb0b''), MoveString (js ''0x7b7d''),
                 MoveVector [MoveString (js ''0xb0b'')]] 2 = Some (MoveString (js ''0xb0b''))"
    by (simp_all add: answer_defs)
  have ne: "js ''0xa11ce'' \<noteq> js ''0xc0ffee''"
    by (simp add: js_def)
  have t1: "call_toString (element [MoveString (js ''PROD-001'')] 3) = Inl TypeError"
    by (simp add: answer_defs)
  have t2: "call_toString
       (element [MoveString (js ''PROD-001''), MoveString (js ''0xa11ce''),
                 MoveString (js ''0xa11ce''), MoveString (js ''0x7b''), MoveVector []] 3)
     = Inr (js ''0x7b'')"
    by (simp add: answer_defs)
  have p2: "JSON_parse (metadataJson (js ''0x7b'')) = Inl SyntaxError"
    by (simp add: codec_defs)
  note inst = verifyProduct_judgment [where this = example_chain
      and productId = "js ''PROD-001''" and tr = "[]"]
  show ?thesis
    using t0 p0 l0 e0 ne t1 t2 p2
      inst [where w = "example_ledger (Inr (Response
          [MoveString (js ''PROD-001''), MoveString (js ''0xa11ce''),
           MoveString (js ''0xb0b''), MoveString (js ''0x7b7d''),
           MoveVector [MoveString (js ''0xb0b'')]]))"
        and xs = "[MoveString (js ''PROD-001''), MoveString (js ''0xa11ce''),
           MoveString (js ''0xb0b''), MoveString (js ''0x7b7d''),
           MoveVector [MoveString (js ''0xb0b'')]]"
        and s = "js ''0x7b7d''" and md = "JObject []" and n = "Length 1"
        and expectedManufacturer = "js ''0xa11ce''"]
      inst [where w = "example_ledger (Inr (Response
          [MoveString (js ''PROD-001''), MoveString (js ''0xa11ce''),
           MoveString (js ''0xb0b''), MoveString (js ''0x7b7d''),
           MoveVector [MoveString (js ''0xb0b'')]]))"
        and xs = "[MoveString (js ''PROD-001''), MoveString (js ''0xa11ce''),
           MoveString (js ''0xb0b''), MoveString (js ''0x7b7d''),
           MoveVector [MoveString (js ''0xb0b'')]]"
        and s = "js ''0x7b7d''" and md = "JObject []" and n = "Length 1"
        and expectedManufacturer = "js ''0xc0ffee''"]
      inst [where w = "example_ledger (Inl (ApiError (js ''Network Error'')))"
        and e = "ApiError (js ''Network Error'')" and expectedManufacturer = "js ''0xa11ce''"]
      inst [where w = "example_ledger (Inr (Response []))"
        and expectedManufacturer = "js ''0xa11ce''"]
      inst [where w = "example_ledger (Inr NoResponse)"
        and expectedManufacturer = "js ''0xa11ce''"]
      inst [where w = "example_ledger (Inr (Response [MoveString (js ''PROD-001'')]))"
        and xs = "[MoveString (js ''PROD-001'')]" and e = TypeError
        and expectedManufacturer = "js ''0xa11ce''"]
      inst [where w = "example_ledger (Inr (Response
          [MoveString (js ''PROD-001''), MoveString (js ''0xa11ce''),
           MoveString (js ''0xa11ce''), MoveString (js ''0x7b''), MoveVector []]))"
        and xs = "[MoveString (js ''PROD-001''), MoveString (js ''0xa11ce''),
           MoveString (js ''0xa11ce''), MoveString (js ''0x7b''), MoveVector []]"
        and s = "js ''0x7b''" and e = SyntaxError
        and expectedManufacturer = "js ''0xa11ce''"]
    unfolding v
    by simp
qed

subsection \<open>Scan payloads\<close>

text \<open>
  C6, as the spec states it: with an app URL the payload is \<open>{appUrl}/verify?id={id}\<close>.
  The empty string is an app URL, and with it the payload is the bare form.
\<close>

theorem empty_app_url_counterexample:
  "generateProductQrData (js ''123'') (Some []) = js ''supplychain:product:123''
   \<and> generateProductQrData (js ''123'') (Some []) \<noteq> [] @ js ''/verify?id='' @ js ''123''"
  by (simp add: generateProductQrData_def js_def)

text \<open>
  C6, as the service does it: the payload is \<open>{appUrl}/verify?id={id}\<close> when the app
  URL is given and not empty, and \<open>supplychain:product:{id}\<close> when it is empty or not
  given.
\<close>

theorem generateProductQrData_forms:
  "(appUrl \<noteq> [] \<longrightarrow>
      generateProductQrData productId (Some appUrl) = appUrl @ js ''/verify?id='' @ productId)
   \<and> generateProductQrData productId (Some []) = js ''supplychain:product:'' @ productId
   \<and> generateProductQrData productId None = js ''supplychain:product:'' @ productId"
  by (simp add: generateProductQrData_def)

theorem generateProductQrData_forms_witness:
  "js ''https://example.com'' \<noteq> []
   \<and> generateProductQrData (js ''123'') (Some (js ''https://example.com''))
       = js ''https://example.com/verify?id=123''
   \<and> generateProductQrData (js ''123'') (Some []) = js ''supplychain:product:123''
   \<and> generateProductQrData (js ''123'') None = js ''supplychain:product:123''"
proof -
  have h: "js ''https://example.com'' \<noteq> []"
    by (simp add: js_def)
  show ?thesis
    using h generateProductQrData_forms [of "js ''https://example.com''" "js ''123''"]
    by (simp add: js_def)
qed

text \<open>
  The two literals of the payload as code units, and what \<open>after_verify_id\<close> finds:
  the text after the first \<open>/verify?id=\<close>, which no shorter prefix of a text can end in
  the middle of, since \<open>/\<close> occurs in it only once.
\<close>

lemma marker_eq: "js ''/verify?id='' = [47, 118, 101, 114, 105, 102, 121, 63, 105, 100, 61]"
  by (simp add: js_def)

lemma scheme_eq:
  "js ''supplychain:product:'' =
     [115, 117, 112, 112, 108, 121, 99, 104, 97, 105, 110, 58, 112, 114, 111, 100, 117, 99,
      116, 58]"
  by (simp add: js_def)

lemma overlap_hd:
  assumes "take (length M) (u @ M @ x) = M" and "u \<noteq> []" and "length u < length M"
  shows "hd M \<in> set (tl M)"
proof -
  define k where "k = length M - length u"
  have k: "0 < k"
    using assms(3) by (simp add: k_def)
  have "take (length M) (u @ M @ x) = u @ take k (M @ x)"
    using assms(3) by (simp add: k_def)
  moreover have "take k (M @ x) = hd M # take (k - 1) (tl M @ x)"
    using k assms(3) by (cases M; cases k) auto
  ultimately have "M = u @ hd M # take (k - 1) (tl M @ x)"
    using assms(1) by simp
  then have "tl M = tl u @ hd M # take (k - 1) (tl M @ x)"
    using assms(2) by (metis tl_append2)
  then show ?thesis
    by (metis in_set_conv_decomp)
qed

lemma no_overlap:
  assumes "take 11 ((c # r) @ js ''/verify?id='' @ x) = js ''/verify?id=''"
  shows "take 11 (c # r) = js ''/verify?id=''"
proof (cases "11 \<le> length (c # r)")
  case True
  then show ?thesis using assms by simp
next
  case False
  have len: "length (js ''/verify?id='') = 11"
    by (simp add: marker_eq)
  have "hd (js ''/verify?id='') \<in> set (tl (js ''/verify?id=''))"
  proof (rule overlap_hd)
    show "take (length (js ''/verify?id='')) ((c # r) @ js ''/verify?id='' @ x) = js ''/verify?id=''"
      using assms len by simp
    show "c # r \<noteq> []" by simp
    show "length (c # r) < length (js ''/verify?id='')"
      using False len by simp
  qed
  then show ?thesis by (simp add: marker_eq)
qed

lemma after_verify_id_append:
  "after_verify_id u = None \<Longrightarrow> after_verify_id (u @ js ''/verify?id='' @ x) = Some x"
proof (induction u)
  case Nil
  then show ?case by (simp add: marker_eq)
next
  case (Cons c r)
  from Cons.prems have a: "take 11 (c # r) \<noteq> js ''/verify?id=''"
    and b: "after_verify_id r = None"
    by (auto split: if_splits)
  have "take 11 ((c # r) @ js ''/verify?id='' @ x) \<noteq> js ''/verify?id=''"
    using a no_overlap by blast
  then have "after_verify_id ((c # r) @ js ''/verify?id='' @ x)
      = after_verify_id (r @ js ''/verify?id='' @ x)"
    by simp
  then show ?case using Cons.IH [OF b] by simp
qed

lemma after_verify_id_None_iff:
  "after_verify_id s = None \<longleftrightarrow> \<not> (\<exists>a b. s = a @ js ''/verify?id='' @ b)"
proof
  assume n: "after_verify_id s = None"
  show "\<not> (\<exists>a b. s = a @ js ''/verify?id='' @ b)"
  proof
    assume "\<exists>a b. s = a @ js ''/verify?id='' @ b"
    then obtain a b where s: "s = a @ js ''/verify?id='' @ b" by blast
    have "\<exists>y. after_verify_id (a @ js ''/verify?id='' @ b) = Some y"
    proof (induction a)
      case Nil
      then show ?case by (simp add: marker_eq)
    next
      case (Cons c r)
      then show ?case by simp
    qed
    with n s show False by simp
  qed
next
  assume "\<not> (\<exists>a b. s = a @ js ''/verify?id='' @ b)"
  then show "after_verify_id s = None"
  proof (induction s)
    case Nil
    then show ?case by simp
  next
    case (Cons c r)
    have len: "length (js ''/verify?id='') = 11"
      by (simp add: marker_eq)
    have "take 11 (c # r) \<noteq> js ''/verify?id=''"
    proof
      assume t: "take 11 (c # r) = js ''/verify?id=''"
      have "c # r = [] @ js ''/verify?id='' @ drop 11 (c # r)"
        by (metis append_Nil append_take_drop_id t)
      with Cons.prems show False by blast
    qed
    moreover have "\<not> (\<exists>a b. r = a @ js ''/verify?id='' @ b)"
    proof
      assume "\<exists>a b. r = a @ js ''/verify?id='' @ b"
      then obtain a b where "r = a @ js ''/verify?id='' @ b" by blast
      then have "c # r = (c # a) @ js ''/verify?id='' @ b" by simp
      with Cons.prems show False by blast
    qed
    ultimately show ?case using Cons.IH by simp
  qed
qed

lemma starts_with_scheme_iff:
  "take 20 s = js ''supplychain:product:'' \<longleftrightarrow> (\<exists>i. s = js ''supplychain:product:'' @ i)"
proof
  assume "take 20 s = js ''supplychain:product:''"
  then have "s = js ''supplychain:product:'' @ drop 20 s"
    by (metis append_take_drop_id)
  then show "\<exists>i. s = js ''supplychain:product:'' @ i" ..
next
  assume "\<exists>i. s = js ''supplychain:product:'' @ i"
  then show "take 20 s = js ''supplychain:product:''"
    by (auto simp: scheme_eq)
qed

lemma url_form_not_bare:
  assumes "take 20 appUrl \<noteq> js ''supplychain:product:''"
  shows "take 20 (appUrl @ js ''/verify?id='' @ x) \<noteq> js ''supplychain:product:''"
proof
  assume t: "take 20 (appUrl @ js ''/verify?id='' @ x) = js ''supplychain:product:''"
  show False
  proof (cases "20 \<le> length appUrl")
    case True
    then show ?thesis using t assms by simp
  next
    case False
    then have "take 20 (appUrl @ js ''/verify?id='' @ x)
        = appUrl @ take (20 - length appUrl) (js ''/verify?id='' @ x)"
      by simp
    moreover obtain n where "20 - length appUrl = Suc n"
      using False by (cases "20 - length appUrl") auto
    ultimately have "js ''supplychain:product:''
        = appUrl @ 47 # take n (tl (js ''/verify?id='') @ x)"
      using t by (simp add: marker_eq)
    then have "47 \<in> set (js ''supplychain:product:'')"
      by (metis in_set_conv_decomp)
    then show ?thesis by (simp add: scheme_eq)
  qed
qed

text \<open>
  C5, as the spec states it: the URL form read back gives the id for every id and every
  app URL. No reader can do that: the id \<open>1\<close> with the app URL \<open>a/verify?id=2\<close> and the
  id \<open>2/verify?id=1\<close> with the app URL \<open>a\<close> have the same payload.
\<close>

theorem url_form_collision_counterexample:
  "generateProductQrData (js ''1'') (Some (js ''a/verify?id=2''))
     = generateProductQrData (js ''2/verify?id=1'') (Some (js ''a''))
   \<and> js ''1'' \<noteq> js ''2/verify?id=1''
   \<and> fromScanPayload (generateProductQrData (js ''1'') (Some (js ''a/verify?id=2'')))
     = Inr (js ''2/verify?id=1'')"
  by (simp add: generateProductQrData_def fromScanPayload_def js_def)

text \<open>
  C5, as amended: the bare form read back gives the id, for every id; the URL form read
  back gives the id for every app URL that neither starts with \<open>supplychain:product:\<close>
  nor contains \<open>/verify?id=\<close>; and \<open>fromScanPayload\<close> rejects a string with
  \<open>ParseError\<close> exactly when it has neither form.
\<close>

theorem scan_payload_roundtrip:
  "fromScanPayload (generateProductQrData x None) = Inr x
   \<and> (\<not> (\<exists>i. appUrl = js ''supplychain:product:'' @ i)
        \<and> \<not> (\<exists>u i. appUrl = u @ js ''/verify?id='' @ i) \<longrightarrow>
        fromScanPayload (generateProductQrData x (Some appUrl)) = Inr x)
   \<and> (fromScanPayload s = Inl ParseError \<longleftrightarrow>
        \<not> (\<exists>i. s = js ''supplychain:product:'' @ i)
        \<and> \<not> (\<exists>u i. s = u @ js ''/verify?id='' @ i))"
proof (intro conjI impI)
  have len: "length (js ''supplychain:product:'') = 20"
    by (simp add: scheme_eq)
  show "fromScanPayload (generateProductQrData x None) = Inr x"
    using len by (simp add: generateProductQrData_def fromScanPayload_def)
  show "fromScanPayload s = Inl ParseError \<longleftrightarrow>
        \<not> (\<exists>i. s = js ''supplychain:product:'' @ i)
        \<and> \<not> (\<exists>u i. s = u @ js ''/verify?id='' @ i)"
    unfolding starts_with_scheme_iff [symmetric] after_verify_id_None_iff [symmetric]
    by (simp add: fromScanPayload_def split: option.splits)
  show "fromScanPayload (generateProductQrData x (Some appUrl)) = Inr x"
    if "\<not> (\<exists>i. appUrl = js ''supplychain:product:'' @ i)
        \<and> \<not> (\<exists>u i. appUrl = u @ js ''/verify?id='' @ i)"
  proof -
    from that have h: "take 20 appUrl \<noteq> js ''supplychain:product:''"
      and n: "after_verify_id appUrl = None"
      by (simp_all add: starts_with_scheme_iff after_verify_id_None_iff)
    show ?thesis
    proof (cases "appUrl = []")
      case True
      then show ?thesis using len by (simp add: generateProductQrData_def fromScanPayload_def)
    next
      case False
      then show ?thesis
        using url_form_not_bare [OF h, of x] after_verify_id_append [OF n, of x]
        by (simp add: generateProductQrData_def fromScanPayload_def)
    qed
  qed
qed

theorem scan_payload_roundtrip_witness:
  "fromScanPayload (generateProductQrData (js ''PROD-001'') None) = Inr (js ''PROD-001'')
   \<and> \<not> (\<exists>i. js ''https://example.com'' = js ''supplychain:product:'' @ i)
   \<and> \<not> (\<exists>u i. js ''https://example.com'' = u @ js ''/verify?id='' @ i)
   \<and> fromScanPayload (generateProductQrData (js ''PROD-001'') (Some (js ''https://example.com'')))
       = Inr (js ''PROD-001'')
   \<and> \<not> (\<exists>i. js ''PROD-001'' = js ''supplychain:product:'' @ i)
   \<and> \<not> (\<exists>u i. js ''PROD-001'' = u @ js ''/verify?id='' @ i)
   \<and> fromScanPayload (js ''PROD-001'') = Inl ParseError"
proof -
  have h1: "\<not> (\<exists>i. js ''https://example.com'' = js ''supplychain:product:'' @ i)
      \<and> \<not> (\<exists>u i. js ''https://example.com'' = u @ js ''/verify?id='' @ i)"
    unfolding starts_with_scheme_iff [symmetric] after_verify_id_None_iff [symmetric]
    by (simp add: js_def)
  have h2: "\<not> (\<exists>i. js ''PROD-001'' = js ''supplychain:product:'' @ i)
      \<and> \<not> (\<exists>u i. js ''PROD-001'' = u @ js ''/verify?id='' @ i)"
    unfolding starts_with_scheme_iff [symmetric] after_verify_id_None_iff [symmetric]
    by (simp add: js_def)
  show ?thesis
    using h1 h2
      scan_payload_roundtrip [of "js ''PROD-001''" "js ''https://example.com''" "js ''PROD-001''"]
    by blast
qed

subsection \<open>The existence endpoint\<close>

text \<open>
  C10: a request whose query parameter \<open>i\<close> is absent or empty is answered with
  \<open>{message: 'MISSING ID'}\<close>, and the list of events is unchanged: the ledger was not
  asked.
\<close>

theorem missing_parameter_no_lookup:
  assumes "req_query req (js ''i'') = None \<or> req_query req (js ''i'') = Some []"
  shows "get_root w APTOS_NODE_URL req tr =
           (Inr (JObject [(js ''message'', JString (js ''MISSING ID''))]), tr)"
  using assms by (auto simp: get_root_def missing_id_def)

theorem missing_parameter_no_lookup_witness:
  "(req_query [(js ''id'', js ''123'')] (js ''i'') = None
      \<or> req_query [(js ''id'', js ''123'')] (js ''i'') = Some [])
   \<and> get_root (example_ledger (Inr EmptyResponse)) None [(js ''id'', js ''123'')] [] =
       (Inr (JObject [(js ''message'', JString (js ''MISSING ID''))]), [])
   \<and> (req_query [(js ''i'', [])] (js ''i'') = None \<or> req_query [(js ''i'', [])] (js ''i'') = Some [])
   \<and> get_root (example_ledger (Inr EmptyResponse)) None [(js ''i'', [])] [] =
       (Inr (JObject [(js ''message'', JString (js ''MISSING ID''))]), [])"
proof -
  have h1: "req_query [(js ''id'', js ''123'')] (js ''i'') = None
      \<or> req_query [(js ''id'', js ''123'')] (js ''i'') = Some []"
    by (simp add: req_query_def js_def)
  have h2: "req_query [(js ''i'', [])] (js ''i'') = None
      \<or> req_query [(js ''i'', [])] (js ''i'') = Some []"
    by (simp add: req_query_def)
  show ?thesis
    using h1 h2
      missing_parameter_no_lookup [OF h1, of "example_ledger (Inr EmptyResponse)" None "[]"]
      missing_parameter_no_lookup [OF h2, of "example_ledger (Inr EmptyResponse)" None "[]"]
    by simp
qed

text \<open>
  C8, as the spec states it: a request that supplies the parameter \<open>id\<close> is answered
  with \<open>{id, exist}\<close>. The handler reads the parameter \<open>i\<close>: a request with \<open>id=123\<close>
  is answered with \<open>{message: 'MISSING ID'}\<close>, though the product \<open>123\<close> is on the ledger.
\<close>

theorem id_parameter_counterexample:
  "get_root
     (example_ledger (Inr (ProductResponse (js ''123'') (js ''0xa11ce'') (js ''0xa11ce'')
                             (js ''0x7b7d'') [])))
     None [(js ''id'', js ''123'')] []
   = (Inr (JObject [(js ''message'', JString (js ''MISSING ID''))]), [])
   \<and> checkOnChainExist_export
     (example_ledger (Inr (ProductResponse (js ''123'') (js ''0xa11ce'') (js ''0xa11ce'')
                             (js ''0x7b7d'') [])))
     None (js ''123'') []
   = (Inr True, [View (get_product_info_request (js ''123''))])"
  by (simp add: get_root_def req_query_def missing_id_def checkOnChainExist_export_def
      supplyChain_def new_SupplyChain_def checkOnChainExist_def getProductInfo_def
      getProductInfo_try_def example_ledger_def codec_defs answer_defs)

text \<open>
  C8, as the service does it: a request whose parameter \<open>i\<close> is given and not empty
  is answered with \<open>{id, exist}\<close>, where \<open>id\<close> is the value of \<open>i\<close> and \<open>exist\<close> the result
  of the exported \<open>checkOnChainExist\<close> for it. The events after the request are the
  events of that call: the handler does nothing else.
\<close>

theorem get_root_answers_exists:
  assumes "req_query req (js ''i'') = Some ident" and "ident \<noteq> []"
  shows "\<exists>exist tr1.
           checkOnChainExist_export w APTOS_NODE_URL ident tr = (Inr exist, tr1)
           \<and> get_root w APTOS_NODE_URL req tr =
               (Inr (JObject [(js ''id'', JString ident), (js ''exist'', JBool exist)]), tr1)"
proof -
  obtain r tr1 where g:
    "getProductInfo w \<lparr>client = AptosClient (module_nodeUrl APTOS_NODE_URL), companyAccount = None\<rparr>
       ident tr = (Inr r, tr1)"
    using getProductInfo_result by blast
  then have c: "checkOnChainExist_export w APTOS_NODE_URL ident tr = (Inr (r \<noteq> None), tr1)"
    by (simp add: checkOnChainExist_export_def supplyChain_def new_SupplyChain_def
        checkOnChainExist_def)
  then have "get_root w APTOS_NODE_URL req tr =
      (Inr (JObject [(js ''id'', JString ident), (js ''exist'', JBool (r \<noteq> None))]), tr1)"
    using assms by (simp add: get_root_def)
  with c show ?thesis by blast
qed

theorem get_root_answers_exists_witness:
  "req_query [(js ''i'', js ''123'')] (js ''i'') = Some (js ''123'')
   \<and> js ''123'' \<noteq> []
   \<and> checkOnChainExist_export
     (example_ledger (Inr (ProductResponse (js ''123'') (js ''0xa11ce'') (js ''0xa11ce'')
                             (js ''0x7b7d'') [])))
     None (js ''123'') []
   = (Inr True, [View (get_product_info_request (js ''123''))])
   \<and> get_root
     (example_ledger (Inr (ProductResponse (js ''123'') (js ''0xa11ce'') (js ''0xa11ce'')
                             (js ''0x7b7d'') [])))
     None [(js ''i'', js ''123'')] []
   = (Inr (JObject [(js ''id'', JString (js ''123'')), (js ''exist'', JBool True)]),
      [View (get_product_info_request (js ''123''))])"
proof -
  have q: "req_query [(js ''i'', js ''123'')] (js ''i'') = Some (js ''123'')"
    by (simp add: req_query_def)
  have n: "js ''123'' \<noteq> []"
    by (simp add: js_def)
  have c: "checkOnChainExist_export
     (example_ledger (Inr (ProductResponse (js ''123'') (js ''0xa11ce'') (js ''0xa11ce'')
                             (js ''0x7b7d'') [])))
     None (js ''123'') []
   = (Inr True, [View (get_product_info_request (js ''123''))])"
    by (simp add: checkOnChainExist_export_def
      supplyChain_def new_SupplyChain_def checkOnChainExist_def getProductInfo_def
      getProductInfo_try_def example_ledger_def codec_defs answer_defs)
  show ?thesis
    using q n c get_root_answers_exists [OF q n, of
        "example_ledger (Inr (ProductResponse (js ''123'') (js ''0xa11ce'') (js ''0xa11ce'')
                             (js ''0x7b7d'') []))" None "[]"]
    by auto
qed

end
